theory Spec2Isabelle
  imports Main
begin

section \<open>Data model\<close>

text \<open>
  The registry entry of \<^verbatim>\<open>registry.js\<close> as the sources use it: the prune policy reads
  \<^verbatim>\<open>containerName\<close>, \<^verbatim>\<open>createdAtMs\<close> and \<^verbatim>\<open>lastUsedAtMs\<close>, the reconciler reads
  \<^verbatim>\<open>containerName\<close>, \<^verbatim>\<open>image\<close> and \<^verbatim>\<open>sessionKey\<close>. The field \<^verbatim>\<open>image\<close> is named
  \<open>imageName\<close> here, since \<open>image\<close> is the image of a set under a function in HOL.
  Timestamps and thresholds are JavaScript numbers holding integers (epoch milliseconds,
  hours, days); they are modelled as unbounded integers.
\<close>

record SandboxRegistryEntry =
  containerName :: string
  imageName :: string
  sessionKey :: string
  createdAtMs :: int
  lastUsedAtMs :: int

text \<open>\<^verbatim>\<open>SandboxContainerInfo = SandboxRegistryEntry & { running; imageMatch }\<close>\<close>

record SandboxContainerInfo = SandboxRegistryEntry +
  running :: bool
  imageMatch :: bool

text \<open>The part of \<^verbatim>\<open>SandboxConfig\<close> that the sources read: \<^verbatim>\<open>cfg.prune.idleHours\<close> and
  \<^verbatim>\<open>cfg.prune.maxAgeDays\<close>.\<close>

record PruneSettings =
  idleHours :: int
  maxAgeDays :: int

record SandboxConfig =
  prune :: PruneSettings

section \<open>Prune policy (prune.ts)\<close>

text \<open>
  \<^verbatim>\<open>
  function shouldPruneSandboxEntry(cfg, now, entry) {
    const idleHours = cfg.prune.idleHours;
    const maxAgeDays = cfg.prune.maxAgeDays;
    if (idleHours === 0 && maxAgeDays === 0) { return false; }
    const idleMs = now - entry.lastUsedAtMs;
    const ageMs = now - entry.createdAtMs;
    return (
      (idleHours > 0 && idleMs > idleHours * 60 * 60 * 1000) ||
      (maxAgeDays > 0 && ageMs > maxAgeDays * 24 * 60 * 60 * 1000)
    );
  }
  \<close>
\<close>

definition shouldPruneSandboxEntry ::
    "SandboxConfig \<Rightarrow> int \<Rightarrow> ('a SandboxRegistryEntry_scheme) \<Rightarrow> bool" where
  "shouldPruneSandboxEntry cfg now entry =
     (let idleHours = idleHours (prune cfg);
          maxAgeDays = maxAgeDays (prune cfg)
      in if idleHours = 0 \<and> maxAgeDays = 0 then False
         else let idleMs = now - lastUsedAtMs entry;
                  ageMs = now - createdAtMs entry
              in (idleHours > 0 \<and> idleMs > idleHours * 60 * 60 * 1000) \<or>
                 (maxAgeDays > 0 \<and> ageMs > maxAgeDays * 24 * 60 * 60 * 1000))"

text \<open>The reference predicate, written from the words of the specification (section 4.4):
  disabled when both thresholds are zero, otherwise the disjunction of the idle rule and
  the age rule, each with a strict comparison.\<close>

definition idle_rule :: "SandboxConfig \<Rightarrow> int \<Rightarrow> ('a SandboxRegistryEntry_scheme) \<Rightarrow> bool" where
  "idle_rule cfg now entry =
     (idleHours (prune cfg) > 0 \<and> now - lastUsedAtMs entry > idleHours (prune cfg) * 3600000)"

definition age_rule :: "SandboxConfig \<Rightarrow> int \<Rightarrow> ('a SandboxRegistryEntry_scheme) \<Rightarrow> bool" where
  "age_rule cfg now entry =
     (maxAgeDays (prune cfg) > 0 \<and> now - createdAtMs entry > maxAgeDays (prune cfg) * 86400000)"

definition shouldPrune_reference ::
    "SandboxConfig \<Rightarrow> int \<Rightarrow> ('a SandboxRegistryEntry_scheme) \<Rightarrow> bool" where
  "shouldPrune_reference cfg now entry =
     (if idleHours (prune cfg) = 0 \<and> maxAgeDays (prune cfg) = 0 then False
      else idle_rule cfg now entry \<or> age_rule cfg now entry)"

section \<open>Effects: the registry store, the container runtime, the operator's terminal\<close>

text \<open>
  Every function of the sources that awaits something is modelled as a function from the
  world to a result and the world after it. A rejected promise (a \<^verbatim>\<open>throw\<close>) is the result
  \<open>Inl err\<close>; the effects performed before the rejection stay in the world.
\<close>

datatype error = RegistryReadError | RegistryWriteError | DockerError

text \<open>The two docker invocations of the sources:
  \<^verbatim>\<open>execDocker(["rm", "-f", name], ...)\<close> and
  \<^verbatim>\<open>execDocker(["inspect", "-f", "{{.Config.Image}}", name], ...)\<close>.\<close>

datatype docker_cmd = Rm string | InspectImage string

record ExecResult =
  code :: int
  stdout :: string

text \<open>What one docker invocation does: the process exits with a code and an output,
  or the invocation itself is rejected.\<close>

datatype exec_outcome = Exited int string | Rejected

text \<open>What the runtime answers to a state query for a container name.\<close>

datatype container_report = Absent | Stopped | Running | Unavailable

record DockerState =
  state_exists :: bool
  state_running :: bool

text \<open>The value the confirmation prompt resolves to: \<^verbatim>\<open>true\<close>, \<^verbatim>\<open>false\<close>, the symbol
  \<^verbatim>\<open>Symbol.for("clack:cancel")\<close> of the global symbol registry, or any other value (a prompt
  library that marks a cancelled prompt with a symbol of its own resolves to such a value).\<close>

datatype confirm_result = Confirmed | Declined | Cancelled | OtherValue

datatype message =
    UsageSpecifyOne
  | UsageOnlyOne
  | NoContainersFound
  | CancelledMsg
  | RemovingContainers
  | Removed string
  | FailedToRemove string error
  | PruneFailed error

datatype event =
    RegistryRead
  | RegistryRemove string
  | ContainerState string
  | Docker docker_cmd
  | Log message
  | Error message
  | Exit int
  | Confirm
  | RecreatePreview "string list"
  | RecreateResult nat nat

text \<open>The world: the registry store, the module variable \<^verbatim>\<open>lastPruneAtMs\<close> of prune.ts,
  and the trace of every external call made so far, oldest first.\<close>

record world =
  registry :: "SandboxRegistryEntry list"
  lastPruneAtMs :: int
  trace :: "event list"

text \<open>The environment: how the collaborators outside the sources behave. An answer
  depends on the container name asked about, not on when it is asked. Every theorem below
  holds for each environment, unless it names a condition on it.\<close>

record env =
  read_fails :: bool
  remove_fails :: "string \<Rightarrow> bool"
  docker :: "docker_cmd \<Rightarrow> exec_outcome"
  state_query_rejected :: "string \<Rightarrow> bool"
  runtime_report :: "string \<Rightarrow> container_report"
  resolveSandboxAgentId :: "string \<Rightarrow> string option"
  configuredImage :: "string option \<Rightarrow> string"
  confirm_answer :: confirm_result

type_synonym 'a io = "world \<Rightarrow> (error + 'a) \<times> world"

definition emit :: "event \<Rightarrow> world \<Rightarrow> world" where
  "emit ev w = w\<lparr>trace := trace w @ [ev]\<rparr>"

text \<open>Modelled from the spec: \<^verbatim>\<open>readRegistry\<close> and \<^verbatim>\<open>removeRegistryEntry\<close> of registry.js,
  which is not among the sources. Section 4.1: \<^verbatim>\<open>read() -> {entries}\<close>; \<^verbatim>\<open>remove(containerName)\<close>;
  a removal is reflected in the next read; removing a name that is not there is a no-op.
  Either call may be rejected (the callers in sandbox.ts catch that).\<close>

definition readRegistry :: "env \<Rightarrow> (SandboxRegistryEntry list) io" where
  "readRegistry env w =
     (if read_fails env then (Inl RegistryReadError, emit RegistryRead w)
      else (Inr (registry w), emit RegistryRead w))"

definition removeRegistryEntry :: "env \<Rightarrow> string \<Rightarrow> unit io" where
  "removeRegistryEntry env name w =
     (if remove_fails env name then (Inl RegistryWriteError, emit (RegistryRemove name) w)
      else (Inr (),
            emit (RegistryRemove name)
              (w\<lparr>registry := filter (\<lambda>e. containerName e \<noteq> name) (registry w)\<rparr>)))"

text \<open>\<^verbatim>\<open>execDocker(args, { allowFailure: true })\<close> of docker.js, taken from the environment:
  it resolves with the exit code and the output, or is rejected.\<close>

definition execDocker :: "env \<Rightarrow> docker_cmd \<Rightarrow> ExecResult io" where
  "execDocker env cmd w =
     (case docker env cmd of
        Exited c out \<Rightarrow> (Inr \<lparr>code = c, stdout = out\<rparr>, emit (Docker cmd) w)
      | Rejected \<Rightarrow> (Inl DockerError, emit (Docker cmd) w))"

section \<open>The prune pass (prune.ts)\<close>

text \<open>
  \<^verbatim>\<open>
  for (const entry of registry.entries) {
    if (!shouldPruneSandboxEntry(params.cfg, now, entry)) { continue; }
    try {
      await execDocker(["rm", "-f", entry.containerName], { allowFailure: true });
    } catch {
      // ignore prune failures
    } finally {
      await params.remove(entry.containerName);
      await params.onRemoved?.(entry);
    }
  }
  \<close>
  The loop runs over the entries that were read, not over the store as it changes.
\<close>

fun prune_entries ::
    "env \<Rightarrow> SandboxConfig \<Rightarrow> int \<Rightarrow> (string \<Rightarrow> unit io) \<Rightarrow>
     (SandboxRegistryEntry \<Rightarrow> unit io) option \<Rightarrow> SandboxRegistryEntry list \<Rightarrow> unit io" where
  "prune_entries env cfg now remove onRemoved [] w = (Inr (), w)"
| "prune_entries env cfg now remove onRemoved (entry # rest) w =
     (if \<not> shouldPruneSandboxEntry cfg now entry
      then prune_entries env cfg now remove onRemoved rest w
      else
        let w1 = snd (execDocker env (Rm (containerName entry)) w)
        in case remove (containerName entry) w1 of
             (Inl err, w2) \<Rightarrow> (Inl err, w2)
           | (Inr _, w2) \<Rightarrow>
               (case onRemoved of
                  None \<Rightarrow> prune_entries env cfg now remove onRemoved rest w2
                | Some callback \<Rightarrow>
                    (case callback entry w2 of
                       (Inl err, w3) \<Rightarrow> (Inl err, w3)
                     | (Inr _, w3) \<Rightarrow> prune_entries env cfg now remove onRemoved rest w3)))"

text \<open>\<^verbatim>\<open>pruneSandboxRegistryEntries\<close>; \<open>now\<close> is the value of \<^verbatim>\<open>Date.now()\<close> read at its start.\<close>

definition pruneSandboxRegistryEntries ::
    "env \<Rightarrow> SandboxConfig \<Rightarrow> int \<Rightarrow> (SandboxRegistryEntry list) io \<Rightarrow> (string \<Rightarrow> unit io) \<Rightarrow>
     (SandboxRegistryEntry \<Rightarrow> unit io) option \<Rightarrow> unit io" where
  "pruneSandboxRegistryEntries env cfg now read remove onRemoved w =
     (if idleHours (prune cfg) = 0 \<and> maxAgeDays (prune cfg) = 0 then (Inr (), w)
      else case read w of
             (Inl err, w1) \<Rightarrow> (Inl err, w1)
           | (Inr entries, w1) \<Rightarrow> prune_entries env cfg now remove onRemoved entries w1)"

definition pruneSandboxContainers :: "env \<Rightarrow> SandboxConfig \<Rightarrow> int \<Rightarrow> unit io" where
  "pruneSandboxContainers env cfg now =
     pruneSandboxRegistryEntries env cfg now (readRegistry env) (removeRegistryEntry env) None"

text \<open>
  \<^verbatim>\<open>
  export async function maybePruneSandboxes(cfg) {
    const now = Date.now();
    if (now - lastPruneAtMs < 5 * 60 * 1000) { return; }
    lastPruneAtMs = now;
    try { await pruneSandboxContainers(cfg); }
    catch (error) { ...; defaultRuntime.error?.(`Sandbox prune failed: ...`); }
  }
  \<close>
  \<open>now\<close> is the clock read by \<^verbatim>\<open>maybePruneSandboxes\<close>, \<open>passNow\<close> the later one read by the pass.
\<close>

definition swallow_prune_failure :: "(error + unit) \<times> world \<Rightarrow> world" where
  "swallow_prune_failure r =
     (case r of
        (Inl err, w) \<Rightarrow> emit (Error (PruneFailed err)) w
      | (Inr _, w) \<Rightarrow> w)"

definition maybePruneSandboxes :: "env \<Rightarrow> SandboxConfig \<Rightarrow> int \<Rightarrow> int \<Rightarrow> world \<Rightarrow> world" where
  "maybePruneSandboxes env cfg now passNow w =
     (if now - lastPruneAtMs w < 5 * 60 * 1000 then w
      else swallow_prune_failure
             (pruneSandboxContainers env cfg passNow (w\<lparr>lastPruneAtMs := now\<rparr>)))"

text \<open>The events a run added to the trace.\<close>

definition new_events :: "world \<Rightarrow> world \<Rightarrow> event list" where
  "new_events w w' = drop (length (trace w)) (trace w')"

section \<open>The reconciler (listSandboxRegistryItems)\<close>

text \<open>JavaScript's \<^verbatim>\<open>String.prototype.trim\<close> on strings of code units below 256: the white
  space and line terminators there are tab, line feed, vertical tab, form feed, carriage
  return, space and no-break space.\<close>

definition isWhiteSpace :: "char \<Rightarrow> bool" where
  "isWhiteSpace c =
     (c \<in> set [CHR 0x09, CHR 0x0A, CHR 0x0B, CHR 0x0C, CHR 0x0D, CHR 0x20, CHR 0xA0])"

definition trim :: "string \<Rightarrow> string" where
  "trim s = rev (dropWhile isWhiteSpace (rev (dropWhile isWhiteSpace s)))"

text \<open>Modelled from the spec: the state a query of docker.js resolves to, for each answer
  of the runtime. Only a container that is up is reported as running, and a query whose
  docker invocation fails or times out resolves to \<^verbatim>\<open>exists=false\<close> (section 5).\<close>

definition state_of_report :: "container_report \<Rightarrow> DockerState" where
  "state_of_report r =
     (case r of
        Running \<Rightarrow> \<lparr>state_exists = True, state_running = True\<rparr>
      | Stopped \<Rightarrow> \<lparr>state_exists = True, state_running = False\<rparr>
      | Absent \<Rightarrow> \<lparr>state_exists = False, state_running = False\<rparr>
      | Unavailable \<Rightarrow> \<lparr>state_exists = False, state_running = False\<rparr>)"

text \<open>\<^verbatim>\<open>dockerContainerState\<close> of docker.js, which is not among the sources, taken from
  the environment as the asynchronous function it is: the awaited query is rejected, or it
  resolves to a state \<^verbatim>\<open>{exists, running}\<close>. Section 4.2 of the specification makes every
  operation of the runtime fallible.\<close>

definition dockerContainerState :: "env \<Rightarrow> string \<Rightarrow> DockerState io" where
  "dockerContainerState env name w =
     (if state_query_rejected env name then (Inl DockerError, emit (ContainerState name) w)
      else (Inr (state_of_report (runtime_report env name)), emit (ContainerState name) w))"

text \<open>
  \<^verbatim>\<open>
  let actualImage = entry.image;
  if (state.exists) {
    try {
      const result = await execDocker(
        ["inspect", "-f", "{{.Config.Image}}", entry.containerName], { allowFailure: true });
      if (result.code === 0) { actualImage = result.stdout.trim(); }
    } catch {
      // ignore
    }
  }
  \<close>
\<close>

definition actualImage ::
    "env \<Rightarrow> SandboxRegistryEntry \<Rightarrow> DockerState \<Rightarrow> world \<Rightarrow> string \<times> world" where
  "actualImage env entry state w =
     (if state_exists state
      then (case execDocker env (InspectImage (containerName entry)) w of
              (Inr result, w1) \<Rightarrow>
                (if code result = 0 then trim (stdout result) else imageName entry, w1)
            | (Inl _, w1) \<Rightarrow> (imageName entry, w1))
      else (imageName entry, w))"

text \<open>The loop of \<^verbatim>\<open>listSandboxRegistryItems\<close>. The state query stands outside the
  \<^verbatim>\<open>try\<close>: when it is rejected, the rejection leaves the loop and the function.
  \<^verbatim>\<open>
  for (const entry of registry.entries) {
    const state = await dockerContainerState(entry.containerName);
    ... actualImage ...
    const agentId = resolveSandboxAgentId(entry.sessionKey);
    const configuredImage = params.resolveConfiguredImage(agentId);
    results.push({ ...entry, image: actualImage, running: state.running,
                   imageMatch: actualImage === configuredImage });
  }
  return results;
  \<close>
\<close>

fun reconcile_entries ::
    "env \<Rightarrow> (string option \<Rightarrow> string) \<Rightarrow> SandboxRegistryEntry list \<Rightarrow>
     SandboxContainerInfo list \<Rightarrow> (SandboxContainerInfo list) io" where
  "reconcile_entries env resolveConfiguredImage [] results w = (Inr results, w)"
| "reconcile_entries env resolveConfiguredImage (entry # rest) results w =
     (case dockerContainerState env (containerName entry) w of
        (Inl err, w1) \<Rightarrow> (Inl err, w1)
      | (Inr state, w1) \<Rightarrow>
          (case actualImage env entry state w1 of
             (actual, w2) \<Rightarrow>
               let agentId = resolveSandboxAgentId env (sessionKey entry);
                   configured = resolveConfiguredImage agentId
               in reconcile_entries env resolveConfiguredImage rest
                    (results @
                      [\<lparr>containerName = containerName entry, imageName = actual,
                        sessionKey = sessionKey entry, createdAtMs = createdAtMs entry,
                        lastUsedAtMs = lastUsedAtMs entry,
                        running = state_running state,
                        imageMatch = (actual = configured)\<rparr>])
                    w2))"

definition listSandboxRegistryItems ::
    "env \<Rightarrow> (SandboxRegistryEntry list) io \<Rightarrow> (string option \<Rightarrow> string) \<Rightarrow>
     (SandboxContainerInfo list) io" where
  "listSandboxRegistryItems env read resolveConfiguredImage w =
     (case read w of
        (Inl err, w1) \<Rightarrow> (Inl err, w1)
      | (Inr entries, w1) \<Rightarrow> reconcile_entries env resolveConfiguredImage entries [] w1)"

text \<open>\<^verbatim>\<open>listSandboxContainers\<close>: the configured image of an agent comes from the loaded
  configuration, which is part of the environment.\<close>

definition listSandboxContainers :: "env \<Rightarrow> (SandboxContainerInfo list) io" where
  "listSandboxContainers env =
     listSandboxRegistryItems env (readRegistry env) (configuredImage env)"

text \<open>
  \<^verbatim>\<open>
  export async function removeSandboxContainer(containerName) {
    try { await execDocker(["rm", "-f", containerName], { allowFailure: true }); }
    catch { // ignore removal failures }
    await removeRegistryEntry(containerName);
  }
  \<close>
\<close>

definition removeSandboxContainer :: "env \<Rightarrow> string \<Rightarrow> unit io" where
  "removeSandboxContainer env name w =
     removeRegistryEntry env name (snd (execDocker env (Rm name) w))"

text \<open>The view of one entry, computed from what the runtime answers for that entry's
  own container name and from nothing else.\<close>

definition reconciled_view ::
    "env \<Rightarrow> (string option \<Rightarrow> string) \<Rightarrow> SandboxRegistryEntry \<Rightarrow> SandboxContainerInfo" where
  "reconciled_view env resolveConfiguredImage entry =
     (let state = state_of_report (runtime_report env (containerName entry));
          actual =
            (if state_exists state
             then (case docker env (InspectImage (containerName entry)) of
                     Exited c out \<Rightarrow> if c = 0 then trim out else imageName entry
                   | Rejected \<Rightarrow> imageName entry)
             else imageName entry)
      in \<lparr>containerName = containerName entry, imageName = actual,
          sessionKey = sessionKey entry, createdAtMs = createdAtMs entry,
          lastUsedAtMs = lastUsedAtMs entry,
          running = state_running state,
          imageMatch = (actual = resolveConfiguredImage (resolveSandboxAgentId env (sessionKey entry)))\<rparr>)"

text \<open>The events of reconciling one entry.\<close>

definition reconcile_events :: "env \<Rightarrow> SandboxRegistryEntry \<Rightarrow> event list" where
  "reconcile_events env entry =
     (if state_exists (state_of_report (runtime_report env (containerName entry)))
      then [ContainerState (containerName entry), Docker (InspectImage (containerName entry))]
      else [ContainerState (containerName entry)])"

text \<open>The events of the reconciling loop: it stops at the first rejected state query.\<close>

fun reconcile_trace :: "env \<Rightarrow> SandboxRegistryEntry list \<Rightarrow> event list" where
  "reconcile_trace env [] = []"
| "reconcile_trace env (entry # rest) =
     (if state_query_rejected env (containerName entry) then [ContainerState (containerName entry)]
      else reconcile_events env entry @ reconcile_trace env rest)"

text \<open>An image inspection that fails: the invocation is rejected, or docker exits with a
  code other than zero.\<close>

definition inspection_fails :: "env \<Rightarrow> string \<Rightarrow> bool" where
  "inspection_fails env name =
     (case docker env (InspectImage name) of Exited c out \<Rightarrow> c \<noteq> 0 | Rejected \<Rightarrow> True)"

section \<open>The recreate command (sandbox.ts)\<close>

record SandboxRecreateOptions =
  all :: bool
  session :: "string option"
  agent :: "string option"
  force :: bool

text \<open>The truth value JavaScript gives an optional string in \<^verbatim>\<open>!opts.session\<close>,
  \<^verbatim>\<open>if (opts.session)\<close> and \<^verbatim>\<open>filter(Boolean)\<close>: \<^verbatim>\<open>undefined\<close> and the empty string are false.\<close>

definition truthy :: "string option \<Rightarrow> bool" where
  "truthy s = (case s of None \<Rightarrow> False | Some v \<Rightarrow> v \<noteq> [])"

text \<open>
  \<^verbatim>\<open>
  function validateRecreateOptions(opts, runtime): boolean {
    if (!opts.all && !opts.session && !opts.agent) {
      runtime.error("Please specify --all, --session <key>, or --agent <id>");
      runtime.exit(1);
      return false;
    }
    const exclusiveCount = [opts.all, opts.session, opts.agent].filter(Boolean).length;
    if (exclusiveCount > 1) {
      runtime.error("Please specify only one of: --all, --session, --agent");
      runtime.exit(1);
      return false;
    }
    return true;
  }
  \<close>
\<close>

definition validateRecreateOptions :: "SandboxRecreateOptions \<Rightarrow> world \<Rightarrow> bool \<times> world" where
  "validateRecreateOptions opts w =
     (if \<not> all opts \<and> \<not> truthy (session opts) \<and> \<not> truthy (agent opts)
      then (False, emit (Exit 1) (emit (Error UsageSpecifyOne) w))
      else
        let exclusiveCount =
              length (filter (\<lambda>b. b) [all opts, truthy (session opts), truthy (agent opts)])
        in if exclusiveCount > 1
           then (False, emit (Exit 1) (emit (Error UsageOnlyOne) w))
           else (True, w))"

text \<open>\<^verbatim>\<open>s.startsWith(p)\<close>, and the text a template literal gives an optional string.\<close>

definition startsWith :: "string \<Rightarrow> string \<Rightarrow> bool" where
  "startsWith s p = (take (length p) s = p)"

definition interpolate :: "string option \<Rightarrow> string" where
  "interpolate s = (case s of None \<Rightarrow> ''undefined'' | Some v \<Rightarrow> v)"

text \<open>
  \<^verbatim>\<open>
  let containers = await listSandboxContainers().catch(() => []);
  if (opts.session) {
    containers = containers.filter((c) => c.sessionKey === opts.session);
  } else if (opts.agent) {
    const agentPrefix = `agent:${opts.agent}`;
    containers = containers.filter(
      (c) => c.sessionKey === agentPrefix || c.sessionKey.startsWith(`${agentPrefix}:`));
  }
  return containers;
  \<close>
\<close>

definition listed_or_empty :: "error + SandboxContainerInfo list \<Rightarrow> SandboxContainerInfo list" where
  "listed_or_empty r = (case r of Inl _ \<Rightarrow> [] | Inr cs \<Rightarrow> cs)"

definition fetchAndFilterContainers ::
    "env \<Rightarrow> SandboxRecreateOptions \<Rightarrow> world \<Rightarrow> SandboxContainerInfo list \<times> world" where
  "fetchAndFilterContainers env opts w =
     (case listSandboxContainers env w of
        (listed, w1) \<Rightarrow>
          let containers = listed_or_empty listed
          in if truthy (session opts)
             then (filter (\<lambda>c. Some (sessionKey c) = session opts) containers, w1)
             else if truthy (agent opts)
             then (let agentPrefix = ''agent:'' @ interpolate (agent opts)
                   in (filter (\<lambda>c. sessionKey c = agentPrefix
                                  \<or> startsWith (sessionKey c) (agentPrefix @ '':''))
                         containers, w1))
             else (containers, w1))"

text \<open>\<^verbatim>\<open>confirmRecreate\<close>: \<^verbatim>\<open>result !== false && result !== Symbol.for("clack:cancel")\<close>.
  Every value but \<^verbatim>\<open>false\<close> and that one symbol lets the command go on.\<close>

definition confirmRecreate :: "env \<Rightarrow> world \<Rightarrow> bool \<times> world" where
  "confirmRecreate env w =
     (confirm_answer env \<noteq> Declined \<and> confirm_answer env \<noteq> Cancelled, emit Confirm w)"

text \<open>
  \<^verbatim>\<open>
  async function removeContainer(containerName, removeFn, runtime) {
    try {
      await removeFn(containerName);
      runtime.log(`... Removed ${containerName}`);
      return { success: true };
    } catch (err) {
      runtime.error(`... Failed to remove ${containerName}: ${String(err)}`);
      return { success: false };
    }
  }
  \<close>
\<close>

definition removeContainer :: "string \<Rightarrow> (string \<Rightarrow> unit io) \<Rightarrow> world \<Rightarrow> bool \<times> world" where
  "removeContainer name removeFn w =
     (case removeFn name w of
        (Inr _, w1) \<Rightarrow> (True, emit (Log (Removed name)) w1)
      | (Inl err, w1) \<Rightarrow> (False, emit (Error (FailedToRemove name err)) w1))"

record RemoveCounts =
  successCount :: nat
  failCount :: nat

text \<open>The loop of \<^verbatim>\<open>removeContainers\<close>, with its two counters.\<close>

fun remove_each ::
    "env \<Rightarrow> SandboxContainerInfo list \<Rightarrow> nat \<Rightarrow> nat \<Rightarrow> world \<Rightarrow> RemoveCounts \<times> world" where
  "remove_each env [] successes failures w =
     (\<lparr>successCount = successes, failCount = failures\<rparr>, w)"
| "remove_each env (container # rest) successes failures w =
     (case removeContainer (containerName container) (removeSandboxContainer env) w of
        (success, w1) \<Rightarrow>
          if success then remove_each env rest (successes + 1) failures w1
          else remove_each env rest successes (failures + 1) w1)"

definition removeContainers ::
    "env \<Rightarrow> SandboxContainerInfo list \<Rightarrow> world \<Rightarrow> RemoveCounts \<times> world" where
  "removeContainers env containers w =
     remove_each env containers 0 0 (emit (Log RemovingContainers) w)"

text \<open>The end of \<^verbatim>\<open>sandboxRecreateCommand\<close>:
  \<^verbatim>\<open>
  const result = await removeContainers(containers, runtime);
  displayRecreateResult(result, runtime);
  if (result.failCount > 0) { runtime.exit(1); }
  \<close>
\<close>

definition remove_and_report :: "env \<Rightarrow> SandboxContainerInfo list \<Rightarrow> world \<Rightarrow> world" where
  "remove_and_report env containers w =
     (case removeContainers env containers w of
        (result, w1) \<Rightarrow>
          let w2 = emit (RecreateResult (successCount result) (failCount result)) w1
          in if failCount result > 0 then emit (Exit 1) w2 else w2)"

text \<open>
  \<^verbatim>\<open>
  export async function sandboxRecreateCommand(opts, runtime) {
    if (!validateRecreateOptions(opts, runtime)) { return; }
    const containers = await fetchAndFilterContainers(opts);
    if (containers.length === 0) {
      runtime.log("No containers found matching the criteria.");
      return;
    }
    displayRecreatePreview(containers, runtime);
    if (!opts.force && !(await confirmRecreate())) {
      runtime.log("Cancelled.");
      return;
    }
    ... removeContainers, displayRecreateResult, exit ...
  }
  \<close>
\<close>

definition sandboxRecreateCommand :: "env \<Rightarrow> SandboxRecreateOptions \<Rightarrow> world \<Rightarrow> world" where
  "sandboxRecreateCommand env opts w =
     (case validateRecreateOptions opts w of
        (valid, w1) \<Rightarrow>
          if \<not> valid then w1
          else
            (case fetchAndFilterContainers env opts w1 of
               (containers, w2) \<Rightarrow>
                 if length containers = 0 then emit (Log NoContainersFound) w2
                 else
                   let w3 = emit (RecreatePreview (map containerName containers)) w2
                   in if force opts then remove_and_report env containers w3
                      else (case confirmRecreate env w3 of
                              (confirmed, w4) \<Rightarrow>
                                if \<not> confirmed then emit (Log CancelledMsg) w4
                                else remove_and_report env containers w4)))"

text \<open>The exit status of the process after a run: the code of the first
  \<^verbatim>\<open>runtime.exit\<close> among the events, and zero when there is none.\<close>

fun exit_status :: "event list \<Rightarrow> int" where
  "exit_status [] = 0"
| "exit_status (Exit c # _) = c"
| "exit_status (_ # evs) = exit_status evs"

text \<open>The container names of the docker removals among the events, in order.\<close>

fun removal_attempts :: "event list \<Rightarrow> string list" where
  "removal_attempts [] = []"
| "removal_attempts (Docker (Rm name) # evs) = name # removal_attempts evs"
| "removal_attempts (_ # evs) = removal_attempts evs"

text \<open>How many of the three selectors are given on the command line, an empty value
  counted as given; and how many the code counts.\<close>

definition selectors_given :: "SandboxRecreateOptions \<Rightarrow> nat" where
  "selectors_given opts =
     (if all opts then 1 else 0) + (if session opts \<noteq> None then 1 else 0)
       + (if agent opts \<noteq> None then 1 else 0)"

definition selectors_counted :: "SandboxRecreateOptions \<Rightarrow> nat" where
  "selectors_counted opts =
     (if all opts then 1 else 0) + (if truthy (session opts) then 1 else 0)
       + (if truthy (agent opts) then 1 else 0)"

text \<open>The container names of the entries a pass at time \<open>now\<close> judges eligible.\<close>

definition eligible_names :: "SandboxConfig \<Rightarrow> int \<Rightarrow> SandboxRegistryEntry list \<Rightarrow> string set" where
  "eligible_names cfg now es = containerName ` {e \<in> set es. shouldPruneSandboxEntry cfg now e}"

text \<open>The events of removing one container through \<^verbatim>\<open>removeContainer\<close> and
  \<^verbatim>\<open>removeSandboxContainer\<close>.\<close>

definition removal_events :: "env \<Rightarrow> string \<Rightarrow> event list" where
  "removal_events env name =
     [Docker (Rm name), RegistryRemove name,
      if remove_fails env name then Error (FailedToRemove name RegistryWriteError)
      else Log (Removed name)]"

text \<open>A list of events in which the process is not asked to exit.\<close>

definition no_exit :: "event list \<Rightarrow> bool" where
  "no_exit evs = (\<forall>c. Exit c \<notin> set evs)"

section \<open>Concrete inputs\<close>

text \<open>Small worlds and environments on which the theorems below are run.\<close>

definition example_entry :: "string \<Rightarrow> string \<Rightarrow> int \<Rightarrow> int \<Rightarrow> SandboxRegistryEntry" where
  "example_entry name key created used =
     \<lparr>containerName = name, imageName = ''sandbox:v1'', sessionKey = key,
      createdAtMs = created, lastUsedAtMs = used\<rparr>"

definition example_world :: "SandboxRegistryEntry list \<Rightarrow> world" where
  "example_world es = \<lparr>registry = es, lastPruneAtMs = 0, trace = []\<rparr>"

definition idle_one_hour :: SandboxConfig where
  "idle_one_hour = \<lparr>prune = \<lparr>idleHours = 1, maxAgeDays = 0\<rparr>\<rparr>"

text \<open>Every collaborator answers; every container is up and runs the image \<^verbatim>\<open>sandbox:v2\<close>,
  which is also the configured one.\<close>

definition calm_env :: env where
  "calm_env =
     \<lparr>read_fails = False,
      remove_fails = (\<lambda>_. False),
      docker = (\<lambda>cmd. case cmd of Rm _ \<Rightarrow> Exited 0 [] | InspectImage _ \<Rightarrow> Exited 0 ''sandbox:v2''),
      state_query_rejected = (\<lambda>_. False),
      runtime_report = (\<lambda>_. Running),
      resolveSandboxAgentId = (\<lambda>_. None),
      configuredImage = (\<lambda>_. ''sandbox:v2''),
      confirm_answer = Confirmed\<rparr>"

text \<open>The docker binary cannot be invoked at all: every invocation is rejected.\<close>

definition docker_down_env :: env where
  "docker_down_env = calm_env\<lparr>docker := (\<lambda>_. Rejected)\<rparr>"

text \<open>The registry store cannot be read.\<close>

definition unreadable_env :: env where
  "unreadable_env = calm_env\<lparr>read_fails := True\<rparr>"

text \<open>An environment in which the image inspection of \<^verbatim>\<open>c1\<close> is rejected and that of
  \<^verbatim>\<open>c4\<close> exits with code 1, the state query for \<^verbatim>\<open>c2\<close> fails, and \<^verbatim>\<open>c3\<close> is gone; the
  other inspections print the image followed by a line feed.\<close>

definition flaky_env :: env where
  "flaky_env =
     calm_env
       \<lparr>docker := (\<lambda>cmd. case cmd of
                     Rm _ \<Rightarrow> Exited 0 []
                   | InspectImage n \<Rightarrow>
                       if n = ''c1'' then Rejected
                       else if n = ''c4'' then Exited 1 ''no such object''
                       else Exited 0 (''sandbox:v2'' @ [CHR 0x0A])),
        runtime_report := (\<lambda>n. if n = ''c2'' then Unavailable
                                else if n = ''c3'' then Absent else Running)\<rparr>"


text \<open>The docker removal of \<^verbatim>\<open>c2\<close> is rejected; the registry store works.\<close>

definition second_rm_fails_env :: env where
  "second_rm_fails_env =
     calm_env
       \<lparr>docker := (\<lambda>cmd. case cmd of
                     Rm n \<Rightarrow> if n = ''c2'' then Rejected else Exited 0 []
                   | InspectImage _ \<Rightarrow> Exited 0 ''sandbox:v2'')\<rparr>"

text \<open>The registry store rejects the removal of \<^verbatim>\<open>c2\<close>.\<close>

definition second_fails_env :: env where
  "second_fails_env = calm_env\<lparr>remove_fails := (\<lambda>n. n = ''c2'')\<rparr>"

definition example_info :: "string \<Rightarrow> string \<Rightarrow> SandboxContainerInfo" where
  "example_info name key =
     \<lparr>containerName = name, imageName = ''sandbox:v2'', sessionKey = key,
      createdAtMs = 0, lastUsedAtMs = 0, running = True, imageMatch = True\<rparr>"

definition five_entries :: "SandboxRegistryEntry list" where
  "five_entries =
     [example_entry ''c1'' ''agent:a:1'' 0 0, example_entry ''c2'' ''agent:a:2'' 0 0,
      example_entry ''c3'' ''agent:a:3'' 0 0, example_entry ''c4'' ''agent:a:4'' 0 0,
      example_entry ''c5'' ''agent:a:5'' 0 0]"

definition foo_entries :: "SandboxRegistryEntry list" where
  "foo_entries =
     [example_entry ''c1'' ''agent:foo'' 0 0, example_entry ''c2'' ''agent:foo:bar'' 0 0,
      example_entry ''c3'' ''agent:foobar'' 0 0]"

section \<open>The prune policy meets its reference\<close>

lemma shouldPrune_unfold:
  "shouldPruneSandboxEntry cfg now entry =
     (idle_rule cfg now entry \<or> age_rule cfg now entry)"
  by (auto simp: shouldPruneSandboxEntry_def idle_rule_def age_rule_def Let_def)

text \<open>
  Claim C1. For every configuration, time and entry, \<open>shouldPruneSandboxEntry\<close> equals the
  reference predicate. Either rule alone suffices. Both comparisons are strict: with a
  positive idle threshold \<open>h\<close> and the age rule disabled, an entry last used exactly
  \<open>h * 3600000\<close> ms ago is kept and one used a millisecond earlier is pruned; the same holds
  for a positive age threshold \<open>d\<close>, \<open>d * 86400000\<close> ms and the creation time.
\<close>

theorem shouldPruneSandboxEntry_reference:
  "shouldPruneSandboxEntry cfg now entry = shouldPrune_reference cfg now entry
   \<and> (idle_rule cfg now entry \<longrightarrow> shouldPruneSandboxEntry cfg now entry)
   \<and> (age_rule cfg now entry \<longrightarrow> shouldPruneSandboxEntry cfg now entry)
   \<and> (0 < h \<longrightarrow>
        \<not> shouldPruneSandboxEntry \<lparr>prune = \<lparr>idleHours = h, maxAgeDays = 0\<rparr>\<rparr> now
            (entry\<lparr>lastUsedAtMs := now - h * 3600000\<rparr>)
        \<and> shouldPruneSandboxEntry \<lparr>prune = \<lparr>idleHours = h, maxAgeDays = 0\<rparr>\<rparr> now
            (entry\<lparr>lastUsedAtMs := now - h * 3600000 - 1\<rparr>))
   \<and> (0 < d \<longrightarrow>
        \<not> shouldPruneSandboxEntry \<lparr>prune = \<lparr>idleHours = 0, maxAgeDays = d\<rparr>\<rparr> now
            (entry\<lparr>createdAtMs := now - d * 86400000\<rparr>)
        \<and> shouldPruneSandboxEntry \<lparr>prune = \<lparr>idleHours = 0, maxAgeDays = d\<rparr>\<rparr> now
            (entry\<lparr>createdAtMs := now - d * 86400000 - 1\<rparr>))"
proof -
  have ref: "shouldPruneSandboxEntry cfg now entry = shouldPrune_reference cfg now entry"
    by (auto simp: shouldPrune_unfold shouldPrune_reference_def idle_rule_def age_rule_def)
  have either: "idle_rule cfg now entry \<or> age_rule cfg now entry
                  \<Longrightarrow> shouldPruneSandboxEntry cfg now entry"
    by (simp add: shouldPrune_unfold)
  have idle: "\<not> shouldPruneSandboxEntry \<lparr>prune = \<lparr>idleHours = h, maxAgeDays = 0\<rparr>\<rparr> now
                  (entry\<lparr>lastUsedAtMs := now - h * 3600000\<rparr>)
              \<and> shouldPruneSandboxEntry \<lparr>prune = \<lparr>idleHours = h, maxAgeDays = 0\<rparr>\<rparr> now
                  (entry\<lparr>lastUsedAtMs := now - h * 3600000 - 1\<rparr>)" if "0 < h"
    using that by (simp add: shouldPrune_unfold idle_rule_def age_rule_def)
  have age: "\<not> shouldPruneSandboxEntry \<lparr>prune = \<lparr>idleHours = 0, maxAgeDays = d\<rparr>\<rparr> now
                  (entry\<lparr>createdAtMs := now - d * 86400000\<rparr>)
              \<and> shouldPruneSandboxEntry \<lparr>prune = \<lparr>idleHours = 0, maxAgeDays = d\<rparr>\<rparr> now
                  (entry\<lparr>createdAtMs := now - d * 86400000 - 1\<rparr>)" if "0 < d"
    using that by (simp add: shouldPrune_unfold idle_rule_def age_rule_def)
  from ref either idle age show ?thesis by blast
qed

theorem shouldPruneSandboxEntry_reference_witness:
  "idle_rule \<lparr>prune = \<lparr>idleHours = 1, maxAgeDays = 1\<rparr>\<rparr> 90000000 (example_entry ''c1'' ''agent:a:1'' 0 0)
   \<and> age_rule \<lparr>prune = \<lparr>idleHours = 1, maxAgeDays = 1\<rparr>\<rparr> 90000000 (example_entry ''c1'' ''agent:a:1'' 0 0)
   \<and> shouldPruneSandboxEntry \<lparr>prune = \<lparr>idleHours = 1, maxAgeDays = 1\<rparr>\<rparr> 90000000
        (example_entry ''c1'' ''agent:a:1'' 0 0)
   \<and> \<not> shouldPruneSandboxEntry \<lparr>prune = \<lparr>idleHours = 1, maxAgeDays = 0\<rparr>\<rparr> 90000000
        (example_entry ''c1'' ''agent:a:1'' 0 86400000)
   \<and> shouldPruneSandboxEntry \<lparr>prune = \<lparr>idleHours = 1, maxAgeDays = 0\<rparr>\<rparr> 90000000
        (example_entry ''c1'' ''agent:a:1'' 0 86399999)
   \<and> \<not> shouldPruneSandboxEntry \<lparr>prune = \<lparr>idleHours = 0, maxAgeDays = 1\<rparr>\<rparr> 90000000
        (example_entry ''c1'' ''agent:a:1'' 3600000 0)
   \<and> shouldPruneSandboxEntry \<lparr>prune = \<lparr>idleHours = 0, maxAgeDays = 1\<rparr>\<rparr> 90000000
        (example_entry ''c1'' ''agent:a:1'' 3599999 0)"
  using shouldPruneSandboxEntry_reference
          [of "\<lparr>prune = \<lparr>idleHours = 1, maxAgeDays = 1\<rparr>\<rparr>" 90000000
              "example_entry ''c1'' ''agent:a:1'' 0 0" 1 1]
  by (simp add: example_entry_def idle_rule_def age_rule_def shouldPrune_reference_def
        shouldPrune_unfold)

section \<open>The prune pass\<close>

lemma emit_simps [simp]:
  "registry (emit ev w) = registry w"
  "lastPruneAtMs (emit ev w) = lastPruneAtMs w"
  "trace (emit ev w) = trace w @ [ev]"
  by (simp_all add: emit_def)

lemma eligible_names_Cons:
  "eligible_names cfg now (e # es) =
     (if shouldPruneSandboxEntry cfg now e then insert (containerName e) (eligible_names cfg now es)
      else eligible_names cfg now es)"
  by (auto simp: eligible_names_def)

lemma eligible_names_Nil [simp]: "eligible_names cfg now [] = {}"
  by (simp add: eligible_names_def)

lemma snd_execDocker:
  "snd (execDocker env cmd w) = emit (Docker cmd) w"
  by (simp add: execDocker_def split: exec_outcome.splits)

lemma prune_entries_frame:
  "\<exists>R evs. R \<subseteq> eligible_names cfg now es
     \<and> registry (snd (prune_entries env cfg now (removeRegistryEntry env) None es w))
         = filter (\<lambda>x. containerName x \<notin> R) (registry w)
     \<and> trace (snd (prune_entries env cfg now (removeRegistryEntry env) None es w)) = trace w @ evs
     \<and> set evs \<subseteq> (\<lambda>n. Docker (Rm n)) ` eligible_names cfg now es \<union> RegistryRemove ` eligible_names cfg now es
     \<and> lastPruneAtMs (snd (prune_entries env cfg now (removeRegistryEntry env) None es w)) = lastPruneAtMs w"
proof (induction es arbitrary: w)
  case Nil
  show ?case by (rule exI[of _ "{}"], rule exI[of _ "[]"]) simp
next
  case (Cons e es)
  show ?case
  proof (cases "shouldPruneSandboxEntry cfg now e")
    case False
    with Cons.IH[of w] show ?thesis by (simp add: eligible_names_Cons)
  next
    case True
    let ?n = "containerName e"
    let ?w1 = "emit (Docker (Rm ?n)) w"
    show ?thesis
    proof (cases "remove_fails env ?n")
      case True
      with \<open>shouldPruneSandboxEntry cfg now e\<close> show ?thesis
        apply (intro exI[of _ "{}"] exI[of _ "[Docker (Rm ?n), RegistryRemove ?n]"])
        apply (simp add: eligible_names_Cons snd_execDocker removeRegistryEntry_def)
        done
    next
      case False
      let ?w2 = "emit (RegistryRemove ?n) (?w1\<lparr>registry := filter (\<lambda>x. containerName x \<noteq> ?n) (registry ?w1)\<rparr>)"
      from Cons.IH[of ?w2] obtain R evs where
        R: "R \<subseteq> eligible_names cfg now es"
        and reg: "registry (snd (prune_entries env cfg now (removeRegistryEntry env) None es ?w2))
                   = filter (\<lambda>x. containerName x \<notin> R) (registry ?w2)"
        and tr: "trace (snd (prune_entries env cfg now (removeRegistryEntry env) None es ?w2)) = trace ?w2 @ evs"
        and evs: "set evs \<subseteq> (\<lambda>n. Docker (Rm n)) ` eligible_names cfg now es \<union> RegistryRemove ` eligible_names cfg now es"
        and lp: "lastPruneAtMs (snd (prune_entries env cfg now (removeRegistryEntry env) None es ?w2)) = lastPruneAtMs ?w2"
        by blast
      have step: "prune_entries env cfg now (removeRegistryEntry env) None (e # es) w
                  = prune_entries env cfg now (removeRegistryEntry env) None es ?w2"
        using True False by (simp add: snd_execDocker removeRegistryEntry_def)
      show ?thesis
        unfolding step
        apply (intro exI[of _ "insert ?n R"] exI[of _ "[Docker (Rm ?n), RegistryRemove ?n] @ evs"])
        using R reg tr evs lp True
        apply (simp add: eligible_names_Cons)
        apply (auto intro: filter_cong)
        done
    qed
  qed
qed


lemma prune_entries_complete:
  assumes "\<forall>e\<in>set es. shouldPruneSandboxEntry cfg now e \<longrightarrow> \<not> remove_fails env (containerName e)"
  shows "fst (prune_entries env cfg now (removeRegistryEntry env) None es w) = Inr ()
     \<and> registry (snd (prune_entries env cfg now (removeRegistryEntry env) None es w))
         = filter (\<lambda>x. containerName x \<notin> eligible_names cfg now es) (registry w)
     \<and> trace (snd (prune_entries env cfg now (removeRegistryEntry env) None es w))
         = trace w @ concat (map (\<lambda>e. if shouldPruneSandboxEntry cfg now e
                                       then [Docker (Rm (containerName e)), RegistryRemove (containerName e)]
                                       else []) es)"
  using assms
proof (induction es arbitrary: w)
  case Nil
  show ?case by simp
next
  case (Cons e es)
  then have IH: "\<And>w. fst (prune_entries env cfg now (removeRegistryEntry env) None es w) = Inr ()
     \<and> registry (snd (prune_entries env cfg now (removeRegistryEntry env) None es w))
         = filter (\<lambda>x. containerName x \<notin> eligible_names cfg now es) (registry w)
     \<and> trace (snd (prune_entries env cfg now (removeRegistryEntry env) None es w))
         = trace w @ concat (map (\<lambda>e. if shouldPruneSandboxEntry cfg now e
                                       then [Docker (Rm (containerName e)), RegistryRemove (containerName e)]
                                       else []) es)"
    by simp
  show ?case
  proof (cases "shouldPruneSandboxEntry cfg now e")
    case False
    with IH[of w] show ?thesis by (simp add: eligible_names_Cons)
  next
    case True
    let ?n = "containerName e"
    let ?w2 = "emit (RegistryRemove ?n)
                 ((emit (Docker (Rm ?n)) w)\<lparr>registry := filter (\<lambda>x. containerName x \<noteq> ?n)
                                                         (registry (emit (Docker (Rm ?n)) w))\<rparr>)"
    from True Cons.prems have ok: "\<not> remove_fails env ?n" by simp
    have step: "prune_entries env cfg now (removeRegistryEntry env) None (e # es) w
                  = prune_entries env cfg now (removeRegistryEntry env) None es ?w2"
      using True ok by (simp add: snd_execDocker removeRegistryEntry_def)
    show ?thesis
      unfolding step using IH[of ?w2] True
      by (auto simp: eligible_names_Cons intro: filter_cong)
  qed
qed

lemma pruneSandboxContainers_unfold:
  "pruneSandboxContainers env cfg now w =
     (if idleHours (prune cfg) = 0 \<and> maxAgeDays (prune cfg) = 0 then (Inr (), w)
      else if read_fails env then (Inl RegistryReadError, emit RegistryRead w)
      else prune_entries env cfg now (removeRegistryEntry env) None (registry w) (emit RegistryRead w))"
  by (simp add: pruneSandboxContainers_def pruneSandboxRegistryEntries_def readRegistry_def)

lemma disabled_not_eligible:
  "idleHours (prune cfg) = 0 \<and> maxAgeDays (prune cfg) = 0 \<Longrightarrow> \<not> shouldPruneSandboxEntry cfg now e"
  by (simp add: shouldPruneSandboxEntry_def)

text \<open>
  Claim C2. In a prune pass whose registry read succeeds and whose registry removals are
  not rejected, whatever docker does with the \<^verbatim>\<open>rm\<close> invocations (exit code zero, non-zero,
  or a rejected invocation): the pass returns normally, no entry left in the registry is
  eligible, the registry removal was executed for every eligible entry, and the
  registry after the pass is the same under every behaviour of docker.
\<close>

theorem prune_removes_every_eligible_entry:
  assumes rd: "\<not> read_fails env"
      and rm: "\<forall>e\<in>set (registry w). shouldPruneSandboxEntry cfg now e
                  \<longrightarrow> \<not> remove_fails env (containerName e)"
  shows "fst (pruneSandboxContainers env cfg now w) = Inr ()
     \<and> (\<forall>e\<in>set (registry (snd (pruneSandboxContainers env cfg now w))).
            \<not> shouldPruneSandboxEntry cfg now e)
     \<and> (\<forall>e\<in>set (registry w). shouldPruneSandboxEntry cfg now e \<longrightarrow>
            RegistryRemove (containerName e)
              \<in> set (new_events w (snd (pruneSandboxContainers env cfg now w))))
     \<and> (\<forall>d. registry (snd (pruneSandboxContainers (env\<lparr>docker := d\<rparr>) cfg now w))
              = registry (snd (pruneSandboxContainers env cfg now w)))"
proof (cases "idleHours (prune cfg) = 0 \<and> maxAgeDays (prune cfg) = 0")
  case True
  then show ?thesis
    by (simp add: pruneSandboxContainers_unfold disabled_not_eligible)
next
  case False
  let ?run = "\<lambda>env. prune_entries env cfg now (removeRegistryEntry env) None (registry w) (emit RegistryRead w)"
  have run: "pruneSandboxContainers env cfg now w = ?run env"
    using False rd by (auto simp: pruneSandboxContainers_unfold)
  have run_d: "pruneSandboxContainers (env\<lparr>docker := d\<rparr>) cfg now w = ?run (env\<lparr>docker := d\<rparr>)" for d
    using False rd by (auto simp: pruneSandboxContainers_unfold)
  from rm have rm': "\<forall>e\<in>set (registry w). shouldPruneSandboxEntry cfg now e
                  \<longrightarrow> \<not> remove_fails (env\<lparr>docker := d\<rparr>) (containerName e)" for d
    by simp
  note c = prune_entries_complete[OF rm, of "emit RegistryRead w"]
  note cd = prune_entries_complete[OF rm', of _ "emit RegistryRead w"]
  have 1: "fst (?run env) = Inr ()" using c by simp
  have 2: "\<not> shouldPruneSandboxEntry cfg now e" if "e \<in> set (registry (snd (?run env)))" for e
    using that c by (auto simp: eligible_names_def)
  have 3: "RegistryRemove (containerName e) \<in> set (new_events w (snd (?run env)))"
    if "e \<in> set (registry w)" "shouldPruneSandboxEntry cfg now e" for e
    using that c by (auto simp: new_events_def)
  have 4: "registry (snd (?run (env\<lparr>docker := d\<rparr>))) = registry (snd (?run env))" for d
    using c cd[of d] by simp
  show ?thesis unfolding run run_d using 1 2 3 4 by blast
qed


theorem prune_removes_every_eligible_entry_witness:
  "\<not> read_fails docker_down_env
   \<and> fst (pruneSandboxContainers docker_down_env idle_one_hour 7200000
            (example_world [example_entry ''c1'' ''agent:a:1'' 0 0,
                            example_entry ''c2'' ''agent:a:2'' 0 7000000])) = Inr ()
   \<and> registry (snd (pruneSandboxContainers docker_down_env idle_one_hour 7200000
            (example_world [example_entry ''c1'' ''agent:a:1'' 0 0,
                            example_entry ''c2'' ''agent:a:2'' 0 7000000])))
        = [example_entry ''c2'' ''agent:a:2'' 0 7000000]
   \<and> RegistryRemove ''c1''
        \<in> set (new_events
             (example_world [example_entry ''c1'' ''agent:a:1'' 0 0,
                             example_entry ''c2'' ''agent:a:2'' 0 7000000])
             (snd (pruneSandboxContainers docker_down_env idle_one_hour 7200000
               (example_world [example_entry ''c1'' ''agent:a:1'' 0 0,
                               example_entry ''c2'' ''agent:a:2'' 0 7000000]))))"
  using prune_removes_every_eligible_entry
          [of docker_down_env
              "example_world [example_entry ''c1'' ''agent:a:1'' 0 0,
                              example_entry ''c2'' ''agent:a:2'' 0 7000000]"
              idle_one_hour 7200000]
  by (simp add: pruneSandboxContainers_unfold docker_down_env_def calm_env_def idle_one_hour_def
        example_world_def example_entry_def shouldPruneSandboxEntry_def new_events_def
        snd_execDocker removeRegistryEntry_def)

lemma distinct_name_eligible:
  assumes "distinct (map containerName es)" "e \<in> set es"
  shows "containerName e \<in> eligible_names cfg now es \<longleftrightarrow> shouldPruneSandboxEntry cfg now e"
proof -
  from assms(1) have "inj_on containerName (set es)" by (simp add: distinct_map)
  with assms(2) show ?thesis
    by (auto simp: eligible_names_def dest: inj_onD)
qed

text \<open>
  Claim C9. In a registry whose container names are distinct (the registry's invariant),
  a prune pass at time \<open>now\<close>, under every environment and also when the pass is cut short by
  a rejection, leaves the entries that \<open>shouldPruneSandboxEntry\<close> rejects exactly as they
  were, in their order, and performs neither a docker removal nor a registry removal for
  the name of any of them.
\<close>

theorem prune_keeps_ineligible_entries:
  assumes dist: "distinct (map containerName (registry w))"
  shows "filter (\<lambda>e. \<not> shouldPruneSandboxEntry cfg now e)
             (registry (snd (pruneSandboxContainers env cfg now w)))
           = filter (\<lambda>e. \<not> shouldPruneSandboxEntry cfg now e) (registry w)
     \<and> (\<forall>e\<in>set (registry w). \<not> shouldPruneSandboxEntry cfg now e \<longrightarrow>
            e \<in> set (registry (snd (pruneSandboxContainers env cfg now w)))
          \<and> Docker (Rm (containerName e))
               \<notin> set (new_events w (snd (pruneSandboxContainers env cfg now w)))
          \<and> RegistryRemove (containerName e)
               \<notin> set (new_events w (snd (pruneSandboxContainers env cfg now w))))"
proof -
  let ?keep = "\<lambda>e. \<not> shouldPruneSandboxEntry cfg now e"
  let ?w' = "snd (pruneSandboxContainers env cfg now w)"
  let ?E = "eligible_names cfg now (registry w)"
  have "\<exists>R evs. R \<subseteq> ?E
          \<and> registry ?w' = filter (\<lambda>x. containerName x \<notin> R) (registry w)
          \<and> new_events w ?w' = evs
          \<and> set evs \<subseteq> insert RegistryRead ((\<lambda>n. Docker (Rm n)) ` ?E \<union> RegistryRemove ` ?E)"
  proof (cases "(idleHours (prune cfg) = 0 \<and> maxAgeDays (prune cfg) = 0) \<or> read_fails env")
    case True
    then show ?thesis
      by (intro exI[of _ "{}"]) (auto simp: pruneSandboxContainers_unfold new_events_def)
  next
    case False
    then have run: "pruneSandboxContainers env cfg now w
             = prune_entries env cfg now (removeRegistryEntry env) None (registry w) (emit RegistryRead w)"
      by (auto simp: pruneSandboxContainers_unfold)
    from prune_entries_frame[of cfg now "registry w" env "emit RegistryRead w"]
    obtain R evs where "R \<subseteq> ?E"
      "registry ?w' = filter (\<lambda>x. containerName x \<notin> R) (registry w)"
      "trace ?w' = trace w @ RegistryRead # evs"
      "set evs \<subseteq> (\<lambda>n. Docker (Rm n)) ` ?E \<union> RegistryRemove ` ?E"
      unfolding run by auto
    then show ?thesis
      by (intro exI[of _ R] exI[of _ "RegistryRead # evs"]) (auto simp: new_events_def)
  qed
  then obtain R where R: "R \<subseteq> ?E"
    and reg: "registry ?w' = filter (\<lambda>x. containerName x \<notin> R) (registry w)"
    and evs: "set (new_events w ?w') \<subseteq> insert RegistryRead ((\<lambda>n. Docker (Rm n)) ` ?E \<union> RegistryRemove ` ?E)"
    by blast
  have out: "containerName e \<notin> ?E" if "e \<in> set (registry w)" "?keep e" for e
    using distinct_name_eligible[OF dist that(1), of cfg now] that(2) by simp
  have 1: "filter ?keep (registry ?w') = filter ?keep (registry w)"
    unfolding reg filter_filter using out R by (intro filter_cong) auto
  have 2: "e \<in> set (registry ?w')" if "e \<in> set (registry w)" "?keep e" for e
    using out[OF that] R that(1) by (auto simp: reg)
  have 3: "Docker (Rm (containerName e)) \<notin> set (new_events w ?w')
           \<and> RegistryRemove (containerName e) \<notin> set (new_events w ?w')"
    if "e \<in> set (registry w)" "?keep e" for e
    using out[OF that] evs by auto
  from 1 2 3 show ?thesis by blast
qed

theorem prune_keeps_ineligible_entries_witness:
  "distinct (map containerName [example_entry ''c1'' ''agent:a:1'' 0 0,
                               example_entry ''c2'' ''agent:a:2'' 0 7000000])
   \<and> \<not> shouldPruneSandboxEntry idle_one_hour 7200000 (example_entry ''c2'' ''agent:a:2'' 0 7000000)
   \<and> example_entry ''c2'' ''agent:a:2'' 0 7000000
        \<in> set (registry (snd (pruneSandboxContainers calm_env idle_one_hour 7200000
            (example_world [example_entry ''c1'' ''agent:a:1'' 0 0,
                            example_entry ''c2'' ''agent:a:2'' 0 7000000]))))
   \<and> Docker (Rm ''c2'')
        \<notin> set (new_events
             (example_world [example_entry ''c1'' ''agent:a:1'' 0 0,
                             example_entry ''c2'' ''agent:a:2'' 0 7000000])
             (snd (pruneSandboxContainers calm_env idle_one_hour 7200000
               (example_world [example_entry ''c1'' ''agent:a:1'' 0 0,
                               example_entry ''c2'' ''agent:a:2'' 0 7000000]))))"
  using prune_keeps_ineligible_entries
          [of "example_world [example_entry ''c1'' ''agent:a:1'' 0 0,
                              example_entry ''c2'' ''agent:a:2'' 0 7000000]"
              idle_one_hour 7200000 calm_env]
  by (simp add: pruneSandboxContainers_unfold calm_env_def idle_one_hour_def
        example_world_def example_entry_def shouldPruneSandboxEntry_def new_events_def
        snd_execDocker removeRegistryEntry_def)

section \<open>The rate limit of the background prune\<close>

lemma lastPruneAtMs_pruneSandboxContainers:
  "lastPruneAtMs (snd (pruneSandboxContainers env cfg now w)) = lastPruneAtMs w"
  using prune_entries_frame[of cfg now "registry w" env "emit RegistryRead w"]
  by (auto simp: pruneSandboxContainers_unfold)

lemma lastPruneAtMs_swallow:
  "lastPruneAtMs (swallow_prune_failure r) = lastPruneAtMs (snd r)"
  by (cases r) (auto simp: swallow_prune_failure_def split: sum.splits)

text \<open>
  Claim C4. An invocation of \<open>maybePruneSandboxes\<close> less than 300000 ms after the recorded
  timestamp returns the world as it was: no registry read, no removal, no event at all.
  An invocation that is not skipped records its own clock reading, and that holds under
  every environment, so also when the pass is rejected; the pass runs on the world in which
  the timestamp is already recorded; and any invocation less than 300000 ms after
  a non-skipped one is such a no-op.
\<close>

theorem maybePruneSandboxes_rate_limit:
  "(now - lastPruneAtMs w < 300000 \<longrightarrow>
        maybePruneSandboxes env cfg now passNow w = w
      \<and> new_events w (maybePruneSandboxes env cfg now passNow w) = [])
   \<and> (\<not> now - lastPruneAtMs w < 300000 \<longrightarrow>
        lastPruneAtMs (maybePruneSandboxes env cfg now passNow w) = now
      \<and> maybePruneSandboxes env cfg now passNow w
          = swallow_prune_failure (pruneSandboxContainers env cfg passNow (w\<lparr>lastPruneAtMs := now\<rparr>))
      \<and> (now2 - now < 300000 \<longrightarrow>
            maybePruneSandboxes env2 cfg2 now2 passNow2 (maybePruneSandboxes env cfg now passNow w)
              = maybePruneSandboxes env cfg now passNow w))"
proof -
  have skip: "maybePruneSandboxes env cfg now passNow w = w" if "now - lastPruneAtMs w < 300000"
    for env cfg now passNow w
    using that by (simp add: maybePruneSandboxes_def)
  have run: "maybePruneSandboxes env cfg now passNow w
          = swallow_prune_failure (pruneSandboxContainers env cfg passNow (w\<lparr>lastPruneAtMs := now\<rparr>))"
    if "\<not> now - lastPruneAtMs w < 300000"
    using that by (simp add: maybePruneSandboxes_def)
  have stamp: "lastPruneAtMs (maybePruneSandboxes env cfg now passNow w) = now"
    if "\<not> now - lastPruneAtMs w < 300000"
    by (simp add: run[OF that] lastPruneAtMs_swallow lastPruneAtMs_pruneSandboxContainers)
  have again: "maybePruneSandboxes env2 cfg2 now2 passNow2 (maybePruneSandboxes env cfg now passNow w)
              = maybePruneSandboxes env cfg now passNow w"
    if "\<not> now - lastPruneAtMs w < 300000" "now2 - now < 300000"
    using skip[of now2 "maybePruneSandboxes env cfg now passNow w"] stamp[OF that(1)] that(2) by simp
  have quiet: "new_events w (maybePruneSandboxes env cfg now passNow w) = []"
    if "now - lastPruneAtMs w < 300000"
    by (simp add: skip[OF that] new_events_def)
  from skip quiet run stamp again show ?thesis by blast
qed

theorem maybePruneSandboxes_rate_limit_witness:
  "lastPruneAtMs (maybePruneSandboxes unreadable_env idle_one_hour 7200000 7200001
       (example_world [example_entry ''c1'' ''agent:a:1'' 0 0])) = 7200000
   \<and> trace (maybePruneSandboxes unreadable_env idle_one_hour 7200000 7200001
       (example_world [example_entry ''c1'' ''agent:a:1'' 0 0]))
       = [RegistryRead, Error (PruneFailed RegistryReadError)]
   \<and> maybePruneSandboxes calm_env idle_one_hour 7499999 7499999
       (maybePruneSandboxes unreadable_env idle_one_hour 7200000 7200001
         (example_world [example_entry ''c1'' ''agent:a:1'' 0 0]))
       = maybePruneSandboxes unreadable_env idle_one_hour 7200000 7200001
         (example_world [example_entry ''c1'' ''agent:a:1'' 0 0])
   \<and> maybePruneSandboxes calm_env idle_one_hour 299999 299999
       (example_world [example_entry ''c1'' ''agent:a:1'' 0 0])
       = example_world [example_entry ''c1'' ''agent:a:1'' 0 0]"
  using maybePruneSandboxes_rate_limit
          [of 7200000 "example_world [example_entry ''c1'' ''agent:a:1'' 0 0]"
              unreadable_env idle_one_hour 7200001 7499999 calm_env idle_one_hour 7499999]
        maybePruneSandboxes_rate_limit
          [of 299999 "example_world [example_entry ''c1'' ''agent:a:1'' 0 0]"
              calm_env idle_one_hour 299999]
  by (simp add: maybePruneSandboxes_def pruneSandboxContainers_unfold unreadable_env_def
        calm_env_def idle_one_hour_def example_world_def swallow_prune_failure_def)

section \<open>The reconciler\<close>

lemma actualImage_eq:
  "actualImage env entry (state_of_report (runtime_report env (containerName entry))) w =
     (imageName (reconciled_view env rci entry),
      if state_exists (state_of_report (runtime_report env (containerName entry)))
      then emit (Docker (InspectImage (containerName entry))) w else w)"
  by (simp add: actualImage_def reconciled_view_def execDocker_def Let_def
           split: exec_outcome.splits)

lemma reconcile_entries_eq:
  "reconcile_entries env rci es results w =
     (if \<exists>e\<in>set es. state_query_rejected env (containerName e) then Inl DockerError
      else Inr (results @ map (reconciled_view env rci) es),
      w\<lparr>trace := trace w @ reconcile_trace env es\<rparr>)"
proof (induction es arbitrary: results w)
  case Nil
  show ?case by simp
next
  case (Cons e es)
  let ?st = "state_of_report (runtime_report env (containerName e))"
  have view: "\<lparr>containerName = containerName e, imageName = imageName (reconciled_view env rci e),
        sessionKey = sessionKey e, createdAtMs = createdAtMs e, lastUsedAtMs = lastUsedAtMs e,
        running = state_running ?st,
        imageMatch = (imageName (reconciled_view env rci e)
                        = rci (resolveSandboxAgentId env (sessionKey e)))\<rparr>
      = reconciled_view env rci e"
    by (simp add: reconciled_view_def Let_def)
  show ?case
  proof (cases "state_query_rejected env (containerName e)")
    case True
    then show ?thesis by (simp add: dockerContainerState_def emit_def)
  next
    case False
    then show ?thesis
      by (simp add: dockerContainerState_def actualImage_eq[of env e _ rci] view Cons.IH
            reconcile_events_def emit_def Let_def)
  qed
qed

lemma reconcile_trace_all_answered:
  "\<forall>e\<in>set es. \<not> state_query_rejected env (containerName e)
     \<Longrightarrow> reconcile_trace env es = concat (map (reconcile_events env) es)"
  by (induction es) simp_all

lemma listSandboxContainers_eq:
  "listSandboxContainers env w =
     (if read_fails env then (Inl RegistryReadError, emit RegistryRead w)
      else (if \<exists>e\<in>set (registry w). state_query_rejected env (containerName e)
            then Inl DockerError
            else Inr (map (reconciled_view env (configuredImage env)) (registry w)),
            w\<lparr>trace := trace w @ RegistryRead # reconcile_trace env (registry w)\<rparr>))"
  by (simp add: listSandboxContainers_def listSandboxRegistryItems_def readRegistry_def
        reconcile_entries_eq emit_def)



text \<open>
  Claim C5. In the reconciled view of a readable registry whose state queries are all
  answered, the running flag of an entry is true exactly when the runtime reports the
  container as existing and running, and for an entry whose container the runtime reports
  as not existing, the view is not running and carries the recorded image. Whether the
  queries are answered or not, no image inspection is run for the name of a container that
  the runtime reports as not existing.
\<close>

theorem reconciliation_of_missing_container:
  assumes "\<not> read_fails env"
  shows "((\<forall>e\<in>set (registry w). \<not> state_query_rejected env (containerName e)) \<longrightarrow>
       list_all2
         (\<lambda>entry item.
            (running item \<longleftrightarrow>
               state_exists (state_of_report (runtime_report env (containerName entry)))
             \<and> state_running (state_of_report (runtime_report env (containerName entry))))
          \<and> (\<not> state_exists (state_of_report (runtime_report env (containerName entry))) \<longrightarrow>
                \<not> running item \<and> imageName item = imageName entry))
         (registry w) (listed_or_empty (fst (listSandboxContainers env w))))
     \<and> (\<forall>entry\<in>set (registry w).
           \<not> state_exists (state_of_report (runtime_report env (containerName entry))) \<longrightarrow>
           Docker (InspectImage (containerName entry))
             \<notin> set (new_events w (snd (listSandboxContainers env w))))"
proof -
  have 1: "list_all2
         (\<lambda>entry item.
            (running item \<longleftrightarrow>
               state_exists (state_of_report (runtime_report env (containerName entry)))
             \<and> state_running (state_of_report (runtime_report env (containerName entry))))
          \<and> (\<not> state_exists (state_of_report (runtime_report env (containerName entry))) \<longrightarrow>
                \<not> running item \<and> imageName item = imageName entry))
         es (map (reconciled_view env rci) es)" for es rci
    by (induction es)
       (auto simp: reconciled_view_def state_of_report_def Let_def
             split: container_report.splits)
  have 2: "Docker (InspectImage n) \<notin> set (reconcile_trace env es)"
    if "\<not> state_exists (state_of_report (runtime_report env n))" for n es
    using that by (induction es) (auto simp: reconcile_events_def)
  from assms 1 2 show ?thesis
    by (simp add: listSandboxContainers_eq listed_or_empty_def new_events_def)
qed

section \<open>The recreate command\<close>

lemma removeContainer_eq:
  "removeContainer n (removeSandboxContainer env) w =
     (\<not> remove_fails env n,
      w\<lparr>registry := (if remove_fails env n then registry w
                      else filter (\<lambda>e. containerName e \<noteq> n) (registry w)),
        trace := trace w @ removal_events env n\<rparr>)"
  by (simp add: removeContainer_def removeSandboxContainer_def removeRegistryEntry_def
        snd_execDocker removal_events_def emit_def)

lemma remove_each_eq:
  "successCount (fst (remove_each env cs s f w))
      = s + length (filter (\<lambda>c. \<not> remove_fails env (containerName c)) cs)
   \<and> failCount (fst (remove_each env cs s f w))
      = f + length (filter (\<lambda>c. remove_fails env (containerName c)) cs)
   \<and> registry (snd (remove_each env cs s f w))
      = filter (\<lambda>e. containerName e
                  \<notin> containerName ` {c \<in> set cs. \<not> remove_fails env (containerName c)})
          (registry w)
   \<and> trace (snd (remove_each env cs s f w))
      = trace w @ concat (map (\<lambda>c. removal_events env (containerName c)) cs)
   \<and> lastPruneAtMs (snd (remove_each env cs s f w)) = lastPruneAtMs w"
proof (induction cs arbitrary: s f w)
  case Nil
  show ?case by simp
next
  case (Cons c cs)
  show ?case
  proof (cases "remove_fails env (containerName c)")
    case True
    then show ?thesis
      using Cons.IH by (auto simp: removeContainer_eq intro: filter_cong)
  next
    case False
    then show ?thesis
      using Cons.IH by (auto simp: removeContainer_eq intro: filter_cong)
  qed
qed

lemma removal_attempts_removals:
  "removal_attempts (concat (map (\<lambda>c. removal_events env (containerName c)) cs))
     = map containerName cs"
  by (induction cs) (simp_all add: removal_events_def)

lemma exit_status_no_exit: "no_exit xs \<Longrightarrow> exit_status (xs @ ys) = exit_status ys"
  by (induction xs rule: exit_status.induct) (auto simp: no_exit_def)

lemma no_exit_removals:
  "no_exit (concat (map (\<lambda>c. removal_events env (containerName c)) cs))"
  by (induction cs) (auto simp: no_exit_def removal_events_def)

lemma no_exit_reconcile:
  "no_exit (reconcile_trace env es)"
  by (induction es) (auto simp: no_exit_def reconcile_events_def)

lemma validateRecreateOptions_eq:
  "validateRecreateOptions opts w =
     (if selectors_counted opts = 1 then (True, w)
      else (False, emit (Exit 1)
                     (emit (Error (if selectors_counted opts = 0 then UsageSpecifyOne
                                   else UsageOnlyOne)) w)))"
  by (simp add: validateRecreateOptions_def selectors_counted_def Let_def)

lemma snd_fetchAndFilterContainers:
  "snd (fetchAndFilterContainers env opts w) = snd (listSandboxContainers env w)"
  by (simp add: fetchAndFilterContainers_def Let_def split: prod.splits)

lemma trace_listSandboxContainers:
  "\<exists>evs. trace (snd (listSandboxContainers env w)) = trace w @ evs \<and> no_exit evs
         \<and> registry (snd (listSandboxContainers env w)) = registry w"
proof (cases "read_fails env")
  case True
  then show ?thesis
    by (intro exI[of _ "[RegistryRead]"]) (simp add: listSandboxContainers_eq no_exit_def)
next
  case False
  then show ?thesis
    using no_exit_reconcile[of env "registry w"]
    by (intro exI[of _ "RegistryRead # reconcile_trace env (registry w)"])
       (simp add: listSandboxContainers_eq no_exit_def)
qed

lemma trace_remove_and_report:
  "trace (remove_and_report env cs w) =
     trace w @ Log RemovingContainers # concat (map (\<lambda>c. removal_events env (containerName c)) cs)
       @ RecreateResult (successCount (fst (removeContainers env cs w)))
                        (failCount (fst (removeContainers env cs w)))
       # (if 0 < failCount (fst (removeContainers env cs w)) then [Exit 1] else [])"
proof -
  obtain r w1 where rw: "removeContainers env cs w = (r, w1)" by (cases "removeContainers env cs w")
  have "trace w1 = trace w @ Log RemovingContainers
                     # concat (map (\<lambda>c. removal_events env (containerName c)) cs)"
    using remove_each_eq[of env cs 0 0 "emit (Log RemovingContainers) w"] rw
    by (simp add: removeContainers_def)
  then show ?thesis
    by (simp add: remove_and_report_def rw Let_def)
qed

lemma exit_status_remove_and_report:
  assumes "trace w' = trace w @ pre" "no_exit pre"
  shows "exit_status (new_events w (remove_and_report env cs w'))
           = (if 0 < failCount (fst (removeContainers env cs w')) then 1 else 0)"
proof -
  let ?mid = "pre @ Log RemovingContainers
                # concat (map (\<lambda>c. removal_events env (containerName c)) cs)
                @ [RecreateResult (successCount (fst (removeContainers env cs w')))
                                  (failCount (fst (removeContainers env cs w')))]"
  have q: "no_exit ?mid"
    using assms(2) no_exit_removals[of env cs] by (auto simp: no_exit_def)
  have "new_events w (remove_and_report env cs w')
          = ?mid @ (if 0 < failCount (fst (removeContainers env cs w')) then [Exit 1] else [])"
    by (simp add: new_events_def trace_remove_and_report assms(1))
  then show ?thesis
    using exit_status_no_exit[OF q] by simp
qed

lemma failCount_world_independent:
  "failCount (fst (removeContainers env cs w))
     = length (filter (\<lambda>c. remove_fails env (containerName c)) cs)"
  using remove_each_eq[of env cs 0 0 "emit (Log RemovingContainers) w"]
  by (simp add: removeContainers_def)

lemma recreate_command_exit_status:
  assumes valid: "selectors_counted opts = 1"
      and go: "force opts \<or> (confirm_answer env \<noteq> Declined \<and> confirm_answer env \<noteq> Cancelled)"
  shows "exit_status (new_events w (sandboxRecreateCommand env opts w)) \<noteq> 0
           \<longleftrightarrow> (\<exists>c\<in>set (fst (fetchAndFilterContainers env opts w)).
                  remove_fails env (containerName c))"
proof -
  obtain cs w2 where f: "fetchAndFilterContainers env opts w = (cs, w2)"
    by (cases "fetchAndFilterContainers env opts w")
  from trace_listSandboxContainers[of env w] snd_fetchAndFilterContainers[of env opts w] f
  obtain evs where tr2: "trace w2 = trace w @ evs" and q: "no_exit evs" by auto
  have fc: "0 < failCount (fst (removeContainers env cs w')) \<longleftrightarrow>
            (\<exists>c\<in>set cs. remove_fails env (containerName c))" for w'
    by (auto simp: failCount_world_independent filter_empty_conv)
  show ?thesis
  proof (cases "cs = []")
    case True
    then show ?thesis
      using valid f tr2 exit_status_no_exit[of "evs @ [Log NoContainersFound]" "[]"] q
      by (simp add: sandboxRecreateCommand_def validateRecreateOptions_eq new_events_def
            no_exit_def)
  next
    case False
    let ?w3 = "emit (RecreatePreview (map containerName cs)) w2"
    show ?thesis
    proof (cases "force opts")
      case True
      have "exit_status (new_events w (remove_and_report env cs ?w3))
              = (if 0 < failCount (fst (removeContainers env cs ?w3)) then 1 else 0)"
        using q by (intro exit_status_remove_and_report[where pre = "evs @ [RecreatePreview (map containerName cs)]"])
                   (auto simp: tr2 no_exit_def)
      then show ?thesis
        using valid f False True fc[of ?w3]
        by (simp add: sandboxRecreateCommand_def validateRecreateOptions_eq Let_def)
    next
      case nf: False
      with go have c: "confirm_answer env \<noteq> Declined \<and> confirm_answer env \<noteq> Cancelled" by simp
      let ?w4 = "emit Confirm ?w3"
      have "exit_status (new_events w (remove_and_report env cs ?w4))
              = (if 0 < failCount (fst (removeContainers env cs ?w4)) then 1 else 0)"
        using q by (intro exit_status_remove_and_report[where pre = "evs @ [RecreatePreview (map containerName cs), Confirm]"])
                   (auto simp: tr2 no_exit_def)
      then show ?thesis
        using valid f False nf c fc[of ?w4]
        by (simp add: sandboxRecreateCommand_def validateRecreateOptions_eq Let_def
              confirmRecreate_def)
    qed
  qed
qed

text \<open>
  Claim C8, as amended. \<open>removeContainers\<close> attempts the docker removal of every selected
  container, in order, whatever failed before. The two counters add up to the number
  selected. A removal counts as failed exactly when the registry removal of that
  container is rejected; what docker does with the \<^verbatim>\<open>rm\<close> invocation changes neither
  counter. The registry afterwards is the registry before without the containers whose
  removal succeeded: a failure undoes nothing. The process is asked to exit with a
  non-zero status exactly when the failure counter is positive, at the end of the command
  as well as for the whole command once its options are valid and the operator forces or
  confirms it.
\<close>

theorem recreate_removal_is_best_effort:
  "successCount (fst (removeContainers env cs w)) + failCount (fst (removeContainers env cs w))
      = length cs
   \<and> failCount (fst (removeContainers env cs w))
      = length (filter (\<lambda>c. remove_fails env (containerName c)) cs)
   \<and> removal_attempts (new_events w (snd (removeContainers env cs w))) = map containerName cs
   \<and> registry (snd (removeContainers env cs w))
      = filter (\<lambda>e. containerName e
                  \<notin> containerName ` {c \<in> set cs. \<not> remove_fails env (containerName c)})
          (registry w)
   \<and> (exit_status (new_events w (remove_and_report env cs w)) \<noteq> 0
        \<longleftrightarrow> 0 < failCount (fst (removeContainers env cs w)))
   \<and> fst (removeContainers (env\<lparr>docker := d\<rparr>) cs w) = fst (removeContainers env cs w)
   \<and> (selectors_counted opts = 1
        \<and> (force opts \<or> (confirm_answer env \<noteq> Declined \<and> confirm_answer env \<noteq> Cancelled)) \<longrightarrow>
        (exit_status (new_events w (sandboxRecreateCommand env opts w)) \<noteq> 0
          \<longleftrightarrow> (\<exists>c\<in>set (fst (fetchAndFilterContainers env opts w)).
                 remove_fails env (containerName c))))"
proof -
  let ?w0 = "emit (Log RemovingContainers) w"
  let ?evs = "concat (map (\<lambda>c. removal_events env (containerName c)) cs)"
  note e = remove_each_eq[of env cs 0 0 ?w0]
  have run: "removeContainers env cs w = remove_each env cs 0 0 ?w0"
    by (simp add: removeContainers_def)
  have sum: "successCount (fst (removeContainers env cs w))
               + failCount (fst (removeContainers env cs w)) = length cs"
    unfolding run using e sum_length_filter_compl[of "\<lambda>c. remove_fails env (containerName c)" cs]
    by simp
  have fails: "failCount (fst (removeContainers env cs w))
      = length (filter (\<lambda>c. remove_fails env (containerName c)) cs)"
    unfolding run using e by simp
  have tr: "trace (snd (removeContainers env cs w)) = trace w @ Log RemovingContainers # ?evs"
    unfolding run using e by simp
  have attempts: "removal_attempts (new_events w (snd (removeContainers env cs w)))
                    = map containerName cs"
    by (simp add: new_events_def tr removal_attempts_removals)
  have reg: "registry (snd (removeContainers env cs w))
      = filter (\<lambda>e. containerName e
                  \<notin> containerName ` {c \<in> set cs. \<not> remove_fails env (containerName c)})
          (registry w)"
    unfolding run using e by simp
  have quiet: "no_exit (Log RemovingContainers # ?evs)"
    using no_exit_removals[of env cs] by (simp add: no_exit_def)
  obtain r w1 where rw: "removeContainers env cs w = (r, w1)" by (cases "removeContainers env cs w")
  have tr1: "trace w1 = trace w @ Log RemovingContainers # ?evs" using tr rw by simp
  have exit: "exit_status (new_events w (remove_and_report env cs w)) \<noteq> 0
        \<longleftrightarrow> 0 < failCount (fst (removeContainers env cs w))"
    using exit_status_no_exit[OF quiet]
    by (simp add: remove_and_report_def rw new_events_def tr1 Let_def)
  have whole: "exit_status (new_events w (sandboxRecreateCommand env opts w)) \<noteq> 0
          \<longleftrightarrow> (\<exists>c\<in>set (fst (fetchAndFilterContainers env opts w)).
                 remove_fails env (containerName c))"
    if "selectors_counted opts = 1"
       "force opts \<or> (confirm_answer env \<noteq> Declined \<and> confirm_answer env \<noteq> Cancelled)"
    using that by (rule recreate_command_exit_status)
  have counts: "fst (removeContainers (env\<lparr>docker := d\<rparr>) cs w) = fst (removeContainers env cs w)"
    unfolding removeContainers_def
    using remove_each_eq[of env cs 0 0 ?w0] remove_each_eq[of "env\<lparr>docker := d\<rparr>" cs 0 0 ?w0]
    by (intro RemoveCounts.equality) simp_all
  from sum fails attempts reg exit counts whole show ?thesis by blast
qed

text \<open>
  Claim C8 as stated fails on its own scenario, \<^verbatim>\<open>recreate --all --force\<close> on three
  containers where the runtime removal of the second fails: \<open>removeSandboxContainer\<close> ignores
  the rejected \<^verbatim>\<open>docker rm\<close> and removes the registry entry, so the counters are 3 and 0,
  all three entries leave the registry, and no exit is requested.
\<close>

theorem recreate_runtime_failure_counterexample:
  "docker second_rm_fails_env (Rm ''c2'') = Rejected
   \<and> trace (sandboxRecreateCommand second_rm_fails_env
         \<lparr>all = True, session = None, agent = None, force = True\<rparr> (example_world foo_entries))
       = [RegistryRead,
          ContainerState ''c1'', Docker (InspectImage ''c1''),
          ContainerState ''c2'', Docker (InspectImage ''c2''),
          ContainerState ''c3'', Docker (InspectImage ''c3''),
          RecreatePreview [''c1'', ''c2'', ''c3''], Log RemovingContainers,
          Docker (Rm ''c1''), RegistryRemove ''c1'', Log (Removed ''c1''),
          Docker (Rm ''c2''), RegistryRemove ''c2'', Log (Removed ''c2''),
          Docker (Rm ''c3''), RegistryRemove ''c3'', Log (Removed ''c3''),
          RecreateResult 3 0]
   \<and> registry (sandboxRecreateCommand second_rm_fails_env
         \<lparr>all = True, session = None, agent = None, force = True\<rparr> (example_world foo_entries))
       = []
   \<and> exit_status (trace (sandboxRecreateCommand second_rm_fails_env
         \<lparr>all = True, session = None, agent = None, force = True\<rparr> (example_world foo_entries)))
       = 0"
  by (simp add: sandboxRecreateCommand_def validateRecreateOptions_def truthy_def
        fetchAndFilterContainers_def listSandboxContainers_def listSandboxRegistryItems_def
        readRegistry_def dockerContainerState_def actualImage_def execDocker_def
        state_of_report_def listed_or_empty_def trim_def isWhiteSpace_def
        remove_and_report_def removeContainers_def removeContainer_def
        removeSandboxContainer_def removeRegistryEntry_def
        second_rm_fails_env_def calm_env_def example_world_def example_entry_def
        foo_entries_def emit_def Let_def)

text \<open>
  Claim C6, as amended. A selector counts when it is \<^verbatim>\<open>--all\<close> or a non-empty \<^verbatim>\<open>--session\<close>
  or \<^verbatim>\<open>--agent\<close> value. When the number of counted selectors is not one, the command
  reports a usage error and asks for exit status 1, and those two events are all it does:
  no registry read, no state query, no prompt, no removal, and the registry is unchanged.
\<close>

theorem recreate_usage_error_has_no_effect:
  assumes "selectors_counted opts \<noteq> 1"
  shows "sandboxRecreateCommand env opts w
           = emit (Exit 1)
               (emit (Error (if selectors_counted opts = 0 then UsageSpecifyOne
                             else UsageOnlyOne)) w)
     \<and> new_events w (sandboxRecreateCommand env opts w)
           = [Error (if selectors_counted opts = 0 then UsageSpecifyOne else UsageOnlyOne), Exit 1]
     \<and> exit_status (new_events w (sandboxRecreateCommand env opts w)) = 1
     \<and> registry (sandboxRecreateCommand env opts w) = registry w"
  using assms
  by (simp add: sandboxRecreateCommand_def validateRecreateOptions_eq new_events_def)

text \<open>
  Claim C6 as stated fails on \<^verbatim>\<open>recreate --all --session "" --force\<close>: two selectors are
  given, yet the command reads the registry, removes the container \<^verbatim>\<open>c1\<close> from the runtime
  and the registry, and does not ask for a non-zero exit status.
\<close>

theorem recreate_empty_selector_counterexample:
  "selectors_given \<lparr>all = True, session = Some [], agent = None, force = True\<rparr> = 2
   \<and> registry (sandboxRecreateCommand calm_env
                 \<lparr>all = True, session = Some [], agent = None, force = True\<rparr>
                 (example_world [example_entry ''c1'' ''agent:a:1'' 0 0])) = []
   \<and> trace (sandboxRecreateCommand calm_env
                 \<lparr>all = True, session = Some [], agent = None, force = True\<rparr>
                 (example_world [example_entry ''c1'' ''agent:a:1'' 0 0]))
       = [RegistryRead, ContainerState ''c1'', Docker (InspectImage ''c1''),
          RecreatePreview [''c1''], Log RemovingContainers,
          Docker (Rm ''c1''), RegistryRemove ''c1'', Log (Removed ''c1''),
          RecreateResult 1 0]"
  by (simp add: selectors_given_def sandboxRecreateCommand_def validateRecreateOptions_def
        truthy_def fetchAndFilterContainers_def listSandboxContainers_eq listed_or_empty_def
        reconciled_view_def reconcile_events_def state_of_report_def
        remove_and_report_def removeContainers_def removeContainer_eq removal_events_def
        calm_env_def example_world_def example_entry_def trim_def isWhiteSpace_def emit_def
        Let_def)

lemma startsWith_iff: "startsWith s p \<longleftrightarrow> (\<exists>rest. s = p @ rest)"
proof
  assume "startsWith s p"
  then have "s = p @ drop (length p) s"
    by (metis append_take_drop_id startsWith_def)
  then show "\<exists>rest. s = p @ rest" ..
next
  assume "\<exists>rest. s = p @ rest"
  then show "startsWith s p" by (auto simp: startsWith_def)
qed

text \<open>
  Claim C7. \<open>fetchAndFilterContainers\<close> returns, in listing order: with a session key,
  exactly the listed containers whose session key equals it; with an agent id \<open>x\<close> (and no
  session key), exactly those whose session key is \<^verbatim>\<open>agent:x\<close> or begins with \<^verbatim>\<open>agent:x:\<close>;
  with neither, the whole listing. The listing has the session keys and names of the
  registry entries when the registry can be read and every state query is answered.
\<close>

theorem recreate_filter_selects:
  "(session opts = Some k \<and> k \<noteq> [] \<longrightarrow>
      fst (fetchAndFilterContainers env opts w)
        = filter (\<lambda>c. sessionKey c = k) (listed_or_empty (fst (listSandboxContainers env w))))
   \<and> (\<not> truthy (session opts) \<and> agent opts = Some x \<and> x \<noteq> [] \<longrightarrow>
      fst (fetchAndFilterContainers env opts w)
        = filter (\<lambda>c. sessionKey c = ''agent:'' @ x
                     \<or> (\<exists>rest. sessionKey c = ''agent:'' @ x @ '':'' @ rest))
            (listed_or_empty (fst (listSandboxContainers env w))))
   \<and> (\<not> truthy (session opts) \<and> \<not> truthy (agent opts) \<longrightarrow>
      fst (fetchAndFilterContainers env opts w)
        = listed_or_empty (fst (listSandboxContainers env w)))
   \<and> (\<not> read_fails env
        \<and> (\<forall>e\<in>set (registry w). \<not> state_query_rejected env (containerName e)) \<longrightarrow>
      map sessionKey (listed_or_empty (fst (listSandboxContainers env w)))
        = map sessionKey (registry w)
    \<and> map containerName (listed_or_empty (fst (listSandboxContainers env w)))
        = map containerName (registry w))"
proof -
  obtain listed w1 where l: "listSandboxContainers env w = (listed, w1)"
    by (cases "listSandboxContainers env w")
  have s: "fst (fetchAndFilterContainers env opts w)
        = filter (\<lambda>c. sessionKey c = k) (listed_or_empty listed)"
    if "session opts = Some k" "k \<noteq> []"
    using that by (simp add: fetchAndFilterContainers_def l truthy_def Let_def)
  have a: "fst (fetchAndFilterContainers env opts w)
        = filter (\<lambda>c. sessionKey c = ''agent:'' @ x
                     \<or> (\<exists>rest. sessionKey c = ''agent:'' @ x @ '':'' @ rest))
            (listed_or_empty listed)"
    if "\<not> truthy (session opts)" "agent opts = Some x" "x \<noteq> []"
  proof -
    have "startsWith key ((''agent:'' @ x) @ '':'') \<longleftrightarrow> (\<exists>rest. key = ''agent:'' @ x @ '':'' @ rest)"
      for key
      unfolding startsWith_iff by simp
    then show ?thesis
      using that by (simp add: fetchAndFilterContainers_def l truthy_def interpolate_def Let_def)
  qed
  have n: "fst (fetchAndFilterContainers env opts w) = listed_or_empty listed"
    if "\<not> truthy (session opts)" "\<not> truthy (agent opts)"
    using that by (simp add: fetchAndFilterContainers_def l Let_def)
  have r: "map sessionKey (listed_or_empty listed) = map sessionKey (registry w)
         \<and> map containerName (listed_or_empty listed) = map containerName (registry w)"
    if "\<not> read_fails env" "\<forall>e\<in>set (registry w). \<not> state_query_rejected env (containerName e)"
    using that l by (auto simp: listSandboxContainers_eq listed_or_empty_def reconciled_view_def Let_def)
  from s a n r show ?thesis unfolding l by simp
qed

text \<open>
  Claim C10. An empty \<^verbatim>\<open>--session\<close> or \<^verbatim>\<open>--agent\<close> value is treated as an absent one:
  validation, filtering and the whole command do the same with the empty value as without
  it. Given alone it is rejected with the message for no selector; together with \<^verbatim>\<open>--all\<close>
  it passes validation.
\<close>

theorem recreate_empty_selector_is_absent:
  "validateRecreateOptions (opts\<lparr>session := Some []\<rparr>) w
      = validateRecreateOptions (opts\<lparr>session := None\<rparr>) w
   \<and> validateRecreateOptions (opts\<lparr>agent := Some []\<rparr>) w
      = validateRecreateOptions (opts\<lparr>agent := None\<rparr>) w
   \<and> fetchAndFilterContainers env (opts\<lparr>session := Some []\<rparr>) w
      = fetchAndFilterContainers env (opts\<lparr>session := None\<rparr>) w
   \<and> fetchAndFilterContainers env (opts\<lparr>agent := Some []\<rparr>) w
      = fetchAndFilterContainers env (opts\<lparr>agent := None\<rparr>) w
   \<and> sandboxRecreateCommand env (opts\<lparr>session := Some []\<rparr>) w
      = sandboxRecreateCommand env (opts\<lparr>session := None\<rparr>) w
   \<and> sandboxRecreateCommand env (opts\<lparr>agent := Some []\<rparr>) w
      = sandboxRecreateCommand env (opts\<lparr>agent := None\<rparr>) w
   \<and> sandboxRecreateCommand env \<lparr>all = False, session = Some [], agent = None, force = f\<rparr> w
      = emit (Exit 1) (emit (Error UsageSpecifyOne) w)
   \<and> sandboxRecreateCommand env \<lparr>all = False, session = None, agent = Some [], force = f\<rparr> w
      = emit (Exit 1) (emit (Error UsageSpecifyOne) w)
   \<and> validateRecreateOptions \<lparr>all = True, session = Some [], agent = None, force = f\<rparr> w
      = (True, w)
   \<and> validateRecreateOptions \<lparr>all = True, session = None, agent = Some [], force = f\<rparr> w
      = (True, w)"
proof -
  have v1: "validateRecreateOptions (opts\<lparr>session := Some []\<rparr>) w
      = validateRecreateOptions (opts\<lparr>session := None\<rparr>) w" for w
    by (simp add: validateRecreateOptions_def truthy_def)
  have v2: "validateRecreateOptions (opts\<lparr>agent := Some []\<rparr>) w
      = validateRecreateOptions (opts\<lparr>agent := None\<rparr>) w" for w
    by (simp add: validateRecreateOptions_def truthy_def)
  have f1: "fetchAndFilterContainers env (opts\<lparr>session := Some []\<rparr>) w
      = fetchAndFilterContainers env (opts\<lparr>session := None\<rparr>) w" for w
    by (cases "listSandboxContainers env w") (auto simp: fetchAndFilterContainers_def truthy_def Let_def)
  have f2: "fetchAndFilterContainers env (opts\<lparr>agent := Some []\<rparr>) w
      = fetchAndFilterContainers env (opts\<lparr>agent := None\<rparr>) w" for w
    by (cases "listSandboxContainers env w") (auto simp: fetchAndFilterContainers_def truthy_def Let_def)
  have c1: "sandboxRecreateCommand env (opts\<lparr>session := Some []\<rparr>) w
      = sandboxRecreateCommand env (opts\<lparr>session := None\<rparr>) w"
    by (auto simp: sandboxRecreateCommand_def v1 f1 Let_def split: prod.splits)
  have c2: "sandboxRecreateCommand env (opts\<lparr>agent := Some []\<rparr>) w
      = sandboxRecreateCommand env (opts\<lparr>agent := None\<rparr>) w"
    by (auto simp: sandboxRecreateCommand_def v2 f2 Let_def split: prod.splits)
  have r1: "sandboxRecreateCommand env \<lparr>all = False, session = Some [], agent = None, force = f\<rparr> w
      = emit (Exit 1) (emit (Error UsageSpecifyOne) w)"
    by (simp add: sandboxRecreateCommand_def validateRecreateOptions_def truthy_def)
  have r2: "sandboxRecreateCommand env \<lparr>all = False, session = None, agent = Some [], force = f\<rparr> w
      = emit (Exit 1) (emit (Error UsageSpecifyOne) w)"
    by (simp add: sandboxRecreateCommand_def validateRecreateOptions_def truthy_def)
  have a1: "validateRecreateOptions \<lparr>all = True, session = Some [], agent = None, force = f\<rparr> w
      = (True, w)"
    by (simp add: validateRecreateOptions_def truthy_def)
  have a2: "validateRecreateOptions \<lparr>all = True, session = None, agent = Some [], force = f\<rparr> w
      = (True, w)"
    by (simp add: validateRecreateOptions_def truthy_def)
  from v1 v2 f1 f2 c1 c2 r1 r2 a1 a2 show ?thesis by simp
qed

section \<open>The theorems on concrete inputs\<close>

lemmas witness_defs =
  calm_env_def flaky_env_def second_fails_env_def example_world_def example_entry_def
  example_info_def five_entries_def foo_entries_def

lemmas run_defs =
  listSandboxContainers_eq listed_or_empty_def reconciled_view_def reconcile_events_def
  state_of_report_def inspection_fails_def trim_def isWhiteSpace_def new_events_def Let_def


theorem reconciliation_of_missing_container_witness:
  "\<not> read_fails flaky_env
   \<and> \<not> state_exists (state_of_report (runtime_report flaky_env ''c3''))
   \<and> map running (listed_or_empty (fst (listSandboxContainers flaky_env
          (example_world [example_entry ''c3'' ''agent:a:3'' 0 0])))) = [False]
   \<and> map imageName (listed_or_empty (fst (listSandboxContainers flaky_env
          (example_world [example_entry ''c3'' ''agent:a:3'' 0 0])))) = [''sandbox:v1'']
   \<and> new_events (example_world [example_entry ''c3'' ''agent:a:3'' 0 0])
        (snd (listSandboxContainers flaky_env
          (example_world [example_entry ''c3'' ''agent:a:3'' 0 0])))
       = [RegistryRead, ContainerState ''c3'']"
  using reconciliation_of_missing_container
          [of flaky_env "example_world [example_entry ''c3'' ''agent:a:3'' 0 0]"]
  by (simp add: witness_defs run_defs)

theorem recreate_usage_error_has_no_effect_witness:
  "selectors_counted \<lparr>all = True, session = None, agent = Some ''foo'', force = True\<rparr> = 2
   \<and> sandboxRecreateCommand calm_env
        \<lparr>all = True, session = None, agent = Some ''foo'', force = True\<rparr>
        (example_world foo_entries)
       = \<lparr>registry = foo_entries, lastPruneAtMs = 0, trace = [Error UsageOnlyOne, Exit 1]\<rparr>
   \<and> selectors_counted \<lparr>all = False, session = None, agent = None, force = True\<rparr> = 0
   \<and> sandboxRecreateCommand calm_env
        \<lparr>all = False, session = None, agent = None, force = True\<rparr>
        (example_world foo_entries)
       = \<lparr>registry = foo_entries, lastPruneAtMs = 0, trace = [Error UsageSpecifyOne, Exit 1]\<rparr>"
  using recreate_usage_error_has_no_effect
          [of "\<lparr>all = True, session = None, agent = Some ''foo'', force = True\<rparr>"
              calm_env "example_world foo_entries"]
        recreate_usage_error_has_no_effect
          [of "\<lparr>all = False, session = None, agent = None, force = True\<rparr>"
              calm_env "example_world foo_entries"]
  by (simp add: selectors_counted_def truthy_def example_world_def emit_def)

theorem recreate_filter_selects_witness:
  "map containerName (fst (fetchAndFilterContainers calm_env
       \<lparr>all = False, session = None, agent = Some ''foo'', force = True\<rparr>
       (example_world foo_entries))) = [''c1'', ''c2'']
   \<and> map containerName (fst (fetchAndFilterContainers calm_env
       \<lparr>all = False, session = Some ''agent:foo:bar'', agent = None, force = True\<rparr>
       (example_world foo_entries))) = [''c2'']
   \<and> map containerName (fst (fetchAndFilterContainers calm_env
       \<lparr>all = True, session = None, agent = None, force = True\<rparr>
       (example_world foo_entries))) = [''c1'', ''c2'', ''c3'']"
  using recreate_filter_selects
          [of "\<lparr>all = False, session = None, agent = Some ''foo'', force = True\<rparr>" "[]"
              calm_env "example_world foo_entries" "''foo''"]
        recreate_filter_selects
          [of "\<lparr>all = False, session = Some ''agent:foo:bar'', agent = None, force = True\<rparr>"
              "''agent:foo:bar''" calm_env "example_world foo_entries" "[]"]
        recreate_filter_selects
          [of "\<lparr>all = True, session = None, agent = None, force = True\<rparr>" "[]"
              calm_env "example_world foo_entries" "[]"]
  by (simp add: truthy_def witness_defs run_defs)

theorem recreate_removal_is_best_effort_witness:
  "fst (removeContainers second_fails_env
          [example_info ''c1'' ''agent:a:1'', example_info ''c2'' ''agent:a:2'',
           example_info ''c3'' ''agent:a:3'']
          (example_world five_entries))
     = \<lparr>successCount = 2, failCount = 1\<rparr>
   \<and> removal_attempts (new_events (example_world five_entries)
        (snd (removeContainers second_fails_env
          [example_info ''c1'' ''agent:a:1'', example_info ''c2'' ''agent:a:2'',
           example_info ''c3'' ''agent:a:3'']
          (example_world five_entries)))) = [''c1'', ''c2'', ''c3'']
   \<and> map containerName (registry
        (snd (removeContainers second_fails_env
          [example_info ''c1'' ''agent:a:1'', example_info ''c2'' ''agent:a:2'',
           example_info ''c3'' ''agent:a:3'']
          (example_world five_entries)))) = [''c2'', ''c4'', ''c5'']
   \<and> exit_status (new_events (example_world five_entries)
        (remove_and_report second_fails_env
          [example_info ''c1'' ''agent:a:1'', example_info ''c2'' ''agent:a:2'',
           example_info ''c3'' ''agent:a:3'']
          (example_world five_entries))) = 1
   \<and> exit_status (new_events (example_world foo_entries)
        (sandboxRecreateCommand second_fails_env
          \<lparr>all = True, session = None, agent = None, force = True\<rparr>
          (example_world foo_entries))) = 1
   \<and> map containerName (registry
        (sandboxRecreateCommand second_fails_env
          \<lparr>all = True, session = None, agent = None, force = True\<rparr>
          (example_world foo_entries))) = [''c2'']"
  using recreate_removal_is_best_effort
          [of second_fails_env
              "[example_info ''c1'' ''agent:a:1'', example_info ''c2'' ''agent:a:2'',
                example_info ''c3'' ''agent:a:3'']"
              "example_world five_entries", THEN conjunct1]
  by (simp add: witness_defs run_defs remove_and_report_def removeContainers_def
        removeContainer_eq removal_events_def emit_def sandboxRecreateCommand_def
        validateRecreateOptions_def truthy_def fetchAndFilterContainers_def)

theorem recreate_empty_selector_is_absent_witness:
  "sandboxRecreateCommand calm_env
       \<lparr>all = True, session = Some [], agent = None, force = True\<rparr> (example_world foo_entries)
     = sandboxRecreateCommand calm_env
       \<lparr>all = True, session = None, agent = None, force = True\<rparr> (example_world foo_entries)
   \<and> sandboxRecreateCommand calm_env
       \<lparr>all = False, session = Some [], agent = None, force = True\<rparr> (example_world foo_entries)
     = \<lparr>registry = foo_entries, lastPruneAtMs = 0, trace = [Error UsageSpecifyOne, Exit 1]\<rparr>"
  using recreate_empty_selector_is_absent
          [of "\<lparr>all = True, session = Some ''x'', agent = None, force = True\<rparr>"
              "example_world foo_entries" calm_env True]
  by (simp add: example_world_def emit_def)

end
